theory Spec2Isabelle
  imports Main "HOL-Library.Sublist" "HOL-Library.Code_Target_Nat"
begin

section \<open>The Go library functions used by the client\<close>

text \<open>
  A Go \<^verbatim>\<open>string\<close> is a sequence of bytes; it is modelled as a \<^typ>\<open>string\<close>, one
  \<^typ>\<open>char\<close> per byte. The functions of packages \<^verbatim>\<open>strings\<close>, \<^verbatim>\<open>strconv\<close> and
  \<^verbatim>\<open>bufio\<close> that \<^verbatim>\<open>supervisor.go\<close> calls are modelled here on bytes.
\<close>

subsection \<open>White space\<close>

text \<open>
  \<^verbatim>\<open>strings.Fields\<close> and \<^verbatim>\<open>strings.TrimSpace\<close> use \<^verbatim>\<open>unicode.IsSpace\<close> on the runes
  decoded from the string: the six ASCII characters tab, line feed, vertical tab, form
  feed, carriage return and space, and the code points U+0085, U+00A0, U+1680,
  U+2000 to U+200A, U+2028, U+2029, U+202F, U+205F and U+3000. \<open>spaceEncodings\<close> lists
  their UTF-8 encodings. Each encoding starts with a byte that is never a continuation
  byte (\<open>0x80\<close> to \<open>0xBF\<close>), so Go's decoder, which consumes only continuation bytes
  after a leading byte and one byte of an invalid sequence, decodes a white space rune
  at a position exactly when one of the encodings starts there.
\<close>

definition spaceEncodings :: "string list" where
  "spaceEncodings =
    [[CHR 0x09], [CHR 0x0A], [CHR 0x0B], [CHR 0x0C], [CHR 0x0D], [CHR 0x20],
     [CHR 0xC2, CHR 0x85], [CHR 0xC2, CHR 0xA0],
     [CHR 0xE1, CHR 0x9A, CHR 0x80],
     [CHR 0xE2, CHR 0x80, CHR 0x80], [CHR 0xE2, CHR 0x80, CHR 0x81],
     [CHR 0xE2, CHR 0x80, CHR 0x82], [CHR 0xE2, CHR 0x80, CHR 0x83],
     [CHR 0xE2, CHR 0x80, CHR 0x84], [CHR 0xE2, CHR 0x80, CHR 0x85],
     [CHR 0xE2, CHR 0x80, CHR 0x86], [CHR 0xE2, CHR 0x80, CHR 0x87],
     [CHR 0xE2, CHR 0x80, CHR 0x88], [CHR 0xE2, CHR 0x80, CHR 0x89],
     [CHR 0xE2, CHR 0x80, CHR 0x8A],
     [CHR 0xE2, CHR 0x80, CHR 0xA8], [CHR 0xE2, CHR 0x80, CHR 0xA9],
     [CHR 0xE2, CHR 0x80, CHR 0xAF],
     [CHR 0xE2, CHR 0x81, CHR 0x9F],
     [CHR 0xE3, CHR 0x80, CHR 0x80]]"

text \<open>The number of bytes of the white space rune at the start of \<open>s\<close>; 0 when \<open>s\<close> does
  not start with white space.\<close>

definition spaceWidth :: "string \<Rightarrow> nat" where
  "spaceWidth s =
    (case List.find (\<lambda>p. prefix p s) spaceEncodings of
       None \<Rightarrow> 0
     | Some p \<Rightarrow> length p)"

text \<open>The number of bytes of the white space rune at the end of \<open>s\<close>; 0 when \<open>s\<close> does
  not end with white space.\<close>

definition spaceWidthLast :: "string \<Rightarrow> nat" where
  "spaceWidthLast s =
    (case List.find (\<lambda>p. suffix p s) spaceEncodings of
       None \<Rightarrow> 0
     | Some p \<Rightarrow> length p)"

subsection \<open>\<^verbatim>\<open>strings.Fields\<close>, \<^verbatim>\<open>strings.Join\<close>\<close>

text \<open>
  \<^verbatim>\<open>strings.Fields\<close> scans the string once; \<open>cur\<close> holds the bytes of the field being
  read. White space ends the field, and empty fields are never produced.
\<close>

fun fieldsFrom :: "string \<Rightarrow> string \<Rightarrow> string list" where
  "fieldsFrom cur [] = (if cur = [] then [] else [cur])"
| "fieldsFrom cur (c # cs) =
     (let w = spaceWidth (c # cs) in
      if w = 0 then fieldsFrom (cur @ [c]) cs
      else (if cur = [] then [] else [cur]) @ fieldsFrom [] (drop (w - 1) cs))"

definition Fields :: "string \<Rightarrow> string list" where
  "Fields s = fieldsFrom [] s"

fun Join :: "string list \<Rightarrow> string \<Rightarrow> string" where
  "Join [] sep = []"
| "Join [x] sep = x"
| "Join (x # y # ys) sep = x @ sep @ Join (y # ys) sep"

subsection \<open>\<^verbatim>\<open>strings.Index\<close>, \<^verbatim>\<open>strings.Contains\<close>, \<^verbatim>\<open>strings.Split\<close>\<close>

text \<open>\<^verbatim>\<open>strings.Index\<close> returns the position of the first occurrence, or -1: \<open>None\<close> here.\<close>

fun Index :: "string \<Rightarrow> string \<Rightarrow> nat option" where
  "Index [] sub = (if sub = [] then Some 0 else None)"
| "Index (c # cs) sub =
     (if prefix sub (c # cs) then Some 0 else map_option Suc (Index cs sub))"

definition Contains :: "string \<Rightarrow> string \<Rightarrow> bool" where
  "Contains s sub \<longleftrightarrow> Index s sub \<noteq> None"

text \<open>
  \<^verbatim>\<open>strings.Split\<close> cuts at each occurrence of the separator, from the left, without
  overlap. With an empty separator Go splits after each UTF-8 sequence; the client calls
  \<^verbatim>\<open>Split\<close> only with the separators \<^verbatim>\<open>"pid"\<close>, \<^verbatim>\<open>","\<close> and \<^verbatim>\<open>"uptime"\<close>, and the
  model of the empty separator splits after each byte.
\<close>

function Split :: "string \<Rightarrow> string \<Rightarrow> string list" where
  "Split s sep =
     (if sep = [] then map (\<lambda>c. [c]) s
      else case Index s sep of
        None \<Rightarrow> [s]
      | Some m \<Rightarrow> take m s # Split (drop (m + length sep) s) sep)"
  by pat_completeness auto
termination
proof (relation "measure (\<lambda>(s, sep). length s)")
  show "wf (measure (\<lambda>(s, sep). length s))" by simp
next
  fix s sep :: string and m :: nat
  assume "sep \<noteq> []" and "Index s sep = Some m"
  then have "s \<noteq> []" by (cases s) auto
  with \<open>sep \<noteq> []\<close> show "((drop (m + length sep) s, sep), (s, sep)) \<in> measure (\<lambda>(s, sep). length s)"
    by (cases s) auto
qed

declare Split.simps [simp del]

subsection \<open>\<^verbatim>\<open>strings.TrimSpace\<close>\<close>

fun trimLeft :: "string \<Rightarrow> string" where
  "trimLeft [] = []"
| "trimLeft (c # cs) =
     (let w = spaceWidth (c # cs) in
      if w = 0 then c # cs else trimLeft (drop (w - 1) cs))"

function trimRight :: "string \<Rightarrow> string" where
  "trimRight s =
     (let w = spaceWidthLast s in
      if w = 0 then s else trimRight (take (length s - w) s))"
  by pat_completeness auto
termination
proof (relation "measure length")
  show "wf (measure length)" by simp
next
  fix s :: string and w :: nat
  assume "w = spaceWidthLast s" and "w \<noteq> 0"
  moreover have "spaceWidthLast s \<le> length s"
    by (auto simp: spaceWidthLast_def find_Some_iff suffix_def split: option.splits)
  ultimately have "0 < w" and "w \<le> length s" by auto
  then show "(take (length s - w) s, s) \<in> measure length" by auto
qed

declare trimRight.simps [simp del]

definition TrimSpace :: "string \<Rightarrow> string" where
  "TrimSpace s = trimRight (trimLeft s)"

subsection \<open>\<^verbatim>\<open>strconv.Atoi\<close>\<close>

text \<open>
  \<^verbatim>\<open>Atoi(s)\<close> is \<^verbatim>\<open>ParseInt(s, 10, 0)\<close> converted to \<^verbatim>\<open>int\<close>; for strings shorter
  than 19 bytes Go computes the same result by a loop without overflow checks. \<^verbatim>\<open>int\<close>
  has \<open>IntSize\<close> bits, 64 on the platforms the model covers. A syntax error returns 0;
  a range error returns the nearest bound of \<^verbatim>\<open>int\<close>, and \<^verbatim>\<open>ParseUint\<close> reports it at the
  digit that overflows, before it looks at the rest of the string.
\<close>

datatype numError = ErrSyntax | ErrRange

definition IntSize :: nat where
  "IntSize = 64"

definition isDigit :: "char \<Rightarrow> bool" where
  "isDigit c \<longleftrightarrow> (48::nat) \<le> of_char c \<and> of_char c \<le> (57::nat)"

definition digitVal :: "char \<Rightarrow> nat" where
  "digitVal c = of_char c - 48"

text \<open>The loop of \<^verbatim>\<open>ParseUint\<close> in base 10 on \<^verbatim>\<open>uint64\<close>: \<open>n\<close> is the value read so
  far, and the sums are taken modulo \<open>2 ^ 64\<close> as the machine does.\<close>

fun parseUintFrom :: "nat \<Rightarrow> string \<Rightarrow> nat \<times> numError option" where
  "parseUintFrom n [] = (n, None)"
| "parseUintFrom n (c # cs) =
     (let cutoff = (2 ^ 64 - 1) div 10 + 1; maxVal = 2 ^ IntSize - 1 in
      if \<not> isDigit c then (0, Some ErrSyntax)
      else if cutoff \<le> n then (maxVal, Some ErrRange)
      else
        let n' = (n * 10) mod 2 ^ 64; n1 = (n' + digitVal c) mod 2 ^ 64 in
        if n1 < n' \<or> maxVal < n1 then (maxVal, Some ErrRange)
        else parseUintFrom n1 cs)"

definition ParseUint :: "string \<Rightarrow> nat \<times> numError option" where
  "ParseUint s = (if s = [] then (0, Some ErrSyntax) else parseUintFrom 0 s)"

definition ParseInt :: "string \<Rightarrow> int \<times> numError option" where
  "ParseInt s =
     (if s = [] then (0, Some ErrSyntax)
      else
        let neg = (hd s = CHR ''-'');
            s' = (if hd s = CHR ''+'' \<or> hd s = CHR ''-'' then tl s else s);
            (un, err) = ParseUint s';
            cutoff = 2 ^ (IntSize - 1)
        in
          if err = Some ErrSyntax then (0, err)
          else if \<not> neg \<and> cutoff \<le> un then (int cutoff - 1, Some ErrRange)
          else if neg \<and> cutoff < un then (- int cutoff, Some ErrRange)
          else (if neg then - int un else int un, None))"

definition Atoi :: "string \<Rightarrow> int \<times> numError option" where
  "Atoi s = ParseInt s"

subsection \<open>\<^verbatim>\<open>bufio.Scanner\<close> with the default split function \<^verbatim>\<open>ScanLines\<close>\<close>

text \<open>
  Each call of \<^verbatim>\<open>Scan\<close> yields the bytes up to the next line feed, without one trailing
  carriage return; an empty line is a token, the empty rest after the last line feed is
  not. The scanner's buffer grows to \<^verbatim>\<open>MaxScanTokenSize\<close> bytes and must hold the line
  with its line feed (or, for the last line, one free byte to read the end of the
  input): at a line of \<^verbatim>\<open>MaxScanTokenSize\<close> bytes or more \<^verbatim>\<open>Scan\<close> returns false and
  records \<^verbatim>\<open>ErrTooLong\<close>, which only \<^verbatim>\<open>scanner.Err()\<close> reports. \<open>scanLines\<close> is the
  list of the tokens for which \<^verbatim>\<open>Scan\<close> returns true.
\<close>

definition MaxScanTokenSize :: nat where
  "MaxScanTokenSize = 64 * 1024"

definition dropCR :: "string \<Rightarrow> string" where
  "dropCR data = (if data \<noteq> [] \<and> last data = CHR 0x0D then butlast data else data)"

function scanLines :: "string \<Rightarrow> string list" where
  "scanLines data =
     (if data = [] then []
      else
        let line = takeWhile (\<lambda>c. c \<noteq> CHR 0x0A) data in
        if MaxScanTokenSize \<le> length line then []
        else dropCR line # scanLines (drop (Suc (length line)) data))"
  by pat_completeness auto
termination
  by (relation "measure length") auto

declare scanLines.simps [simp del]

section \<open>The client\<close>

subsection \<open>Data\<close>

record ProgramInfo =
  Name :: string
  Description :: string
  State :: int
  StateName :: string
  PID :: int
  Uptime :: string

text \<open>
  Go errors: \<open>errorString\<close> is an error made by \<^verbatim>\<open>errors.New\<close> or by \<^verbatim>\<open>fmt.Errorf\<close>
  without \<^verbatim>\<open>%w\<close>; \<open>wrapError\<close> is made by \<^verbatim>\<open>fmt.Errorf\<close> with \<^verbatim>\<open>%w\<close> and keeps the
  wrapped error; \<open>ExitError\<close> is \<^verbatim>\<open>*exec.ExitError\<close> with its exit code and message;
  \<open>IndexOutOfRange\<close> is the run-time panic of an index expression.
\<close>

datatype error =
    errorString string
  | wrapError string error
  | ExitError int string
  | IndexOutOfRange

fun Error :: "error \<Rightarrow> string" where
  "Error (errorString m) = m"
| "Error (wrapError m e) = m"
| "Error (ExitError code m) = m"
| "Error IndexOutOfRange = ''runtime error: index out of range''"

fun Unwrap :: "error \<Rightarrow> error option" where
  "Unwrap (wrapError m e) = Some e"
| "Unwrap e = None"

text \<open>The interfaces \<^verbatim>\<open>Cmd\<close> and \<^verbatim>\<open>CommandExecutor\<close>: a command is what its two
  methods return, and an executor builds a command from a program name and arguments.\<close>

record Cmd =
  Run :: "error option"
  Output :: "string \<times> error option"

record Client =
  configFile :: string
  commandExecutor :: "string \<Rightarrow> string list \<Rightarrow> Cmd"

record StatusOptions =
  Names :: "string list"

subsection \<open>\<^verbatim>\<open>parseStatusLine\<close>\<close>

definition stateMap :: "string \<rightharpoonup> int" where
  "stateMap = map_of
    [(''STOPPED'', 0), (''STARTING'', 10), (''RUNNING'', 20), (''BACKOFF'', 30),
     (''STOPPING'', 40), (''EXITED'', 100), (''FATAL'', 200), (''UNKNOWN'', 1000)]"

text \<open>An index expression \<^verbatim>\<open>a[i]\<close>, which panics out of range.\<close>

definition index :: "'a list \<Rightarrow> nat \<Rightarrow> error + 'a" where
  "index a i = (if i < length a then Inr (a ! i) else Inl IndexOutOfRange)"

text \<open>
  Lines 177 to 190 of \<^verbatim>\<open>parseStatusLine\<close>: the variables \<^verbatim>\<open>pid\<close> and \<^verbatim>\<open>uptime\<close>, which
  start at their zero values and are assigned only when the description contains
  \<^verbatim>\<open>"pid"\<close>. The error of \<^verbatim>\<open>Atoi\<close> is discarded.
\<close>

definition pidUptime :: "string \<Rightarrow> error + (int \<times> string)" where
  "pidUptime description =
    (if Contains description ''pid'' then
       (case index (Split description ''pid'') 1 of
          Inl e \<Rightarrow> Inl e
        | Inr pidStr \<Rightarrow>
            (case index (Split pidStr '','') 0 of
               Inl e \<Rightarrow> Inl e
             | Inr pidStr \<Rightarrow>
                 (let pid = fst (Atoi (TrimSpace pidStr)) in
                  if Contains description ''uptime'' then
                    (let uptimeParts = Split description ''uptime'' in
                     if 1 < length uptimeParts then
                       (case index (Split (uptimeParts ! 1) '','') 0 of
                          Inl e \<Rightarrow> Inl e
                        | Inr u \<Rightarrow> Inr (pid, TrimSpace u))
                     else Inr (pid, []))
                  else Inr (pid, []))))
     else Inr (0, []))"

definition parseStatusLine :: "string \<Rightarrow> error + ProgramInfo" where
  "parseStatusLine line =
    (let parts = Fields line in
     if length parts < 3 then Inl (errorString (''invalid status line: '' @ line))
     else
       (let name = parts ! 0;
            state = parts ! 1;
            description = Join (drop 2 parts) '' ''
        in
          if Contains description ''no such process'' then
            Inr \<lparr>Name = name, Description = ''no such process'', State = 1000,
                 StateName = ''UNKNOWN'', PID = 0, Uptime = []\<rparr>
          else
            (case stateMap state of
               None \<Rightarrow> Inl (errorString (''unknown state: '' @ state))
             | Some stateCode \<Rightarrow>
                 (case pidUptime description of
                    Inl e \<Rightarrow> Inl e
                  | Inr (pid, uptime) \<Rightarrow>
                      Inr \<lparr>Name = name, Description = description, State = stateCode,
                           StateName = state, PID = pid, Uptime = uptime\<rparr>))))"

subsection \<open>\<^verbatim>\<open>Status\<close>\<close>

text \<open>The argument list that \<^verbatim>\<open>Status\<close> builds (lines 67 to 73).\<close>

definition statusArgs :: "Client \<Rightarrow> StatusOptions \<Rightarrow> string list" where
  "statusArgs c opts =
    (let args = [''status''];
         args = (if 0 < length (Names opts) then args @ Names opts else args);
         args = (if configFile c \<noteq> [] then [''-c'', configFile c] @ args else args)
     in args)"

text \<open>
  The loop over the scanner's tokens (lines 87 to 98): \<open>programs\<close> is the slice built so
  far. A panic of \<^verbatim>\<open>parseStatusLine\<close> is not an error value and is passed on as it is.
\<close>

fun statusLoop :: "ProgramInfo list \<Rightarrow> string list \<Rightarrow> ProgramInfo list \<times> error option" where
  "statusLoop programs [] = (programs, None)"
| "statusLoop programs (line # rest) =
     (case parseStatusLine line of
        Inl IndexOutOfRange \<Rightarrow> ([], Some IndexOutOfRange)
      | Inl err \<Rightarrow> ([], Some (wrapError (''failed to parse status line: '' @ Error err) err))
      | Inr program \<Rightarrow> statusLoop (programs @ [program]) rest)"

definition parseOutput :: "string \<Rightarrow> ProgramInfo list \<times> error option" where
  "parseOutput output = statusLoop [] (scanLines output)"

definition Status :: "Client \<Rightarrow> StatusOptions \<Rightarrow> ProgramInfo list \<times> error option" where
  "Status c opts =
    (let cmd = commandExecutor c ''supervisorctl'' (statusArgs c opts);
         (output, err) = Output cmd
     in
       case err of
         None \<Rightarrow> parseOutput output
       | Some (ExitError code msg) \<Rightarrow>
           if code = 3 \<or> code = 4 then parseOutput output
           else ([], Some (wrapError
                  (''failed to get status: '' @ msg @ '' - output '' @ output @ '' '')
                  (ExitError code msg)))
       | Some e \<Rightarrow> ([], Some (wrapError (''failed to get status: '' @ Error e) e)))"

subsection \<open>\<^verbatim>\<open>Start\<close>, \<^verbatim>\<open>Stop\<close>, \<^verbatim>\<open>Restart\<close>\<close>

text \<open>The argument list of a control operation (lines 103 to 106, 116 to 119 and 129
  to 132, which differ in the action only).\<close>

definition controlArgs :: "Client \<Rightarrow> string \<Rightarrow> string \<Rightarrow> string list" where
  "controlArgs c action programName =
    (let args = [action, programName];
         args = (if configFile c \<noteq> [] then [''-c'', configFile c] @ args else args)
     in args)"

definition Start :: "Client \<Rightarrow> string \<Rightarrow> error option" where
  "Start c programName =
    (let cmd = commandExecutor c ''supervisorctl'' (controlArgs c ''start'' programName) in
     case Run cmd of
       Some err \<Rightarrow> Some (wrapError (''failed to start program: '' @ Error err) err)
     | None \<Rightarrow> None)"

definition Stop :: "Client \<Rightarrow> string \<Rightarrow> error option" where
  "Stop c programName =
    (let cmd = commandExecutor c ''supervisorctl'' (controlArgs c ''stop'' programName) in
     case Run cmd of
       Some err \<Rightarrow> Some (wrapError (''failed to stop program: '' @ Error err) err)
     | None \<Rightarrow> None)"

definition Restart :: "Client \<Rightarrow> string \<Rightarrow> error option" where
  "Restart c programName =
    (let cmd = commandExecutor c ''supervisorctl'' (controlArgs c ''restart'' programName) in
     case Run cmd of
       Some err \<Rightarrow> Some (wrapError (''failed to restart program: '' @ Error err) err)
     | None \<Rightarrow> None)"

subsection \<open>\<^verbatim>\<open>StartAsync\<close>, \<^verbatim>\<open>RestartAsync\<close>\<close>

text \<open>
  Modelled from the spec: \<^verbatim>\<open>StartAsync\<close> and \<^verbatim>\<open>RestartAsync\<close> are named in the README of
  the repository, and their code is not among its source files; the interface \<^verbatim>\<open>Cmd\<close>
  of \<^verbatim>\<open>supervisor.go\<close> has no method that starts a command without waiting for it. By
  the spec they build the arguments of \<^verbatim>\<open>Start\<close> and \<^verbatim>\<open>Restart\<close>, launch the
  subprocess without waiting for its completion, return once it has been launched
  without capturing its exit status, and swallow a failure to launch.

  What the operating system does is an environment: whether the launch of a program
  with its arguments fails, and with what status the program exits when it is waited
  for. What an operation does to the system is the trace of its events: a launch, a
  failed launch, a wait with the exit status it captured. \<open>cmdStart\<close> launches and does
  not wait; \<open>cmdWait\<close> waits for the process and captures its exit status; \<open>cmdRun\<close> is
  the one followed by the other, as a command that is run to completion.
\<close>

datatype procEvent =
    Launched string "string list"
  | LaunchFailed string "string list" error
  | Waited string "string list" "error option"

record procEnv =
  launchResult :: "string \<Rightarrow> string list \<Rightarrow> error option"
  exitResult :: "string \<Rightarrow> string list \<Rightarrow> error option"

definition cmdStart ::
  "procEnv \<Rightarrow> string \<Rightarrow> string list \<Rightarrow> procEvent list \<Rightarrow> procEvent list \<times> error option" where
  "cmdStart env name arg trace =
    (case launchResult env name arg of
       None \<Rightarrow> (trace @ [Launched name arg], None)
     | Some err \<Rightarrow> (trace @ [LaunchFailed name arg err], Some err))"

definition cmdWait ::
  "procEnv \<Rightarrow> string \<Rightarrow> string list \<Rightarrow> procEvent list \<Rightarrow> procEvent list \<times> error option" where
  "cmdWait env name arg trace =
    (trace @ [Waited name arg (exitResult env name arg)], exitResult env name arg)"

definition cmdRun ::
  "procEnv \<Rightarrow> string \<Rightarrow> string list \<Rightarrow> procEvent list \<Rightarrow> procEvent list \<times> error option" where
  "cmdRun env name arg trace =
    (case cmdStart env name arg trace of
       (trace', Some err) \<Rightarrow> (trace', Some err)
     | (trace', None) \<Rightarrow> cmdWait env name arg trace')"

text \<open>The asynchronous operation: the arguments of the synchronous one, a launch, no
  wait; the error of the launch is dropped and no error is returned.\<close>

definition asyncControl ::
  "Client \<Rightarrow> procEnv \<Rightarrow> string \<Rightarrow> string \<Rightarrow> procEvent list \<Rightarrow>
     procEvent list \<times> error option" where
  "asyncControl c env action programName trace =
    (let args = controlArgs c action programName;
         (trace', launchErr) = cmdStart env ''supervisorctl'' args trace
     in (trace', None))"

definition StartAsync ::
  "Client \<Rightarrow> procEnv \<Rightarrow> string \<Rightarrow> procEvent list \<Rightarrow> procEvent list \<times> error option" where
  "StartAsync c env programName trace = asyncControl c env ''start'' programName trace"

definition RestartAsync ::
  "Client \<Rightarrow> procEnv \<Rightarrow> string \<Rightarrow> procEvent list \<Rightarrow> procEvent list \<times> error option" where
  "RestartAsync c env programName trace = asyncControl c env ''restart'' programName trace"

text \<open>The environment in which every launch returns \<open>l\<close> and every process exits with
  \<open>x\<close>.\<close>

definition procEnvOf :: "error option \<Rightarrow> error option \<Rightarrow> procEnv" where
  "procEnvOf l x = \<lparr>launchResult = (\<lambda>name arg. l), exitResult = (\<lambda>name arg. x)\<rparr>"

subsection \<open>The executor of the tests\<close>

text \<open>\<^verbatim>\<open>MockCommandExecutor\<close> of \<^verbatim>\<open>supervisor_test.go\<close> returns the command it was set up
  with, a \<^verbatim>\<open>MockCmd\<close> whose methods return the fields \<^verbatim>\<open>MockOutput\<close> and \<^verbatim>\<open>Err\<close>.\<close>

definition MockCmd :: "string \<Rightarrow> error option \<Rightarrow> Cmd" where
  "MockCmd MockOutput Err = \<lparr>Run = Err, Output = (MockOutput, Err)\<rparr>"

definition MockCommandExecutor :: "Cmd \<Rightarrow> string \<Rightarrow> string list \<Rightarrow> Cmd" where
  "MockCommandExecutor cmd name arg = cmd"

definition mockClient :: "string \<Rightarrow> Cmd \<Rightarrow> Client" where
  "mockClient path cmd = \<lparr>configFile = path, commandExecutor = MockCommandExecutor cmd\<rparr>"

text \<open>An executor that reports the invocation: its commands fail, \<^verbatim>\<open>Run\<close> with the program
  name and the arguments as the message, \<^verbatim>\<open>Output\<close> with them as the output and exit
  code 1. The mock of the tests records the same two values (\<^verbatim>\<open>m.Called(name, arg)\<close>).\<close>

definition echoExecutor :: "string \<Rightarrow> string list \<Rightarrow> Cmd" where
  "echoExecutor name arg =
    \<lparr>Run = Some (errorString (Join (name # arg) '' '')),
     Output = (Join (name # arg) '' '', Some (ExitError 1 ''exit status 1''))\<rparr>"

section \<open>Notions used to state the properties\<close>

text \<open>The text of \<open>s\<close> after the first occurrence of \<open>sub\<close> (empty when there is none),
  and the text of \<open>s\<close> before the first occurrence of \<open>sub\<close> (all of \<open>s\<close> when there is
  none).\<close>

definition textAfterFirst :: "string \<Rightarrow> string \<Rightarrow> string" where
  "textAfterFirst s sub = (case Index s sub of None \<Rightarrow> [] | Some i \<Rightarrow> drop (i + length sub) s)"

definition textUpTo :: "string \<Rightarrow> string \<Rightarrow> string" where
  "textUpTo s sub = (case Index s sub of None \<Rightarrow> s | Some i \<Rightarrow> take i s)"

text \<open>The number that a string of decimal digits denotes.\<close>

definition decimalValue :: "string \<Rightarrow> nat" where
  "decimalValue s = foldl (\<lambda>n c. n * 10 + digitVal c) 0 s"

section \<open>Properties of the library functions\<close>

subsection \<open>\<^verbatim>\<open>Split\<close> and the index expressions\<close>

lemma Split_not_Nil: "sep \<noteq> [] \<Longrightarrow> Split s sep \<noteq> []"
  by (subst Split.simps) (simp split: option.splits)

lemma Split_Contains_length: "sep \<noteq> [] \<Longrightarrow> Contains s sep \<Longrightarrow> 1 < length (Split s sep)"
  using Split_not_Nil [of sep]
  by (subst Split.simps) (auto simp: Contains_def split: option.splits)

lemma index_first: "a \<noteq> [] \<Longrightarrow> index a 0 = Inr (hd a)"
  by (cases a) (simp_all add: index_def)

lemma index_second: "Suc 0 < length a \<Longrightarrow> index a (Suc 0) = Inr (a ! Suc 0)"
  by (simp add: index_def)

lemma Split_Contains_length': "sep \<noteq> [] \<Longrightarrow> Contains s sep \<Longrightarrow> Suc 0 < length (Split s sep)"
  using Split_Contains_length [of sep s] by simp

lemma pidUptime_eq:
  "pidUptime d =
     (if Contains d ''pid'' then
        Inr (fst (Atoi (TrimSpace (hd (Split (Split d ''pid'' ! 1) '','')))),
             if Contains d ''uptime'' then TrimSpace (hd (Split (Split d ''uptime'' ! 1) '','')) else [])
      else Inr (0, []))"
  by (simp add: pidUptime_def Let_def index_first index_second Split_not_Nil Split_Contains_length')

lemma pidUptime_returns: "\<exists>pid uptime. pidUptime d = Inr (pid, uptime)"
  by (simp add: pidUptime_eq)

subsection \<open>White space\<close>

lemma spaceEncodings_all:
  "list_all (\<lambda>p. p \<noteq> [] \<and> list_all (\<lambda>b. (128::nat) \<le> of_char b) (tl p) \<and>
     ((of_char (hd p) :: nat) < 33 \<or> 128 \<le> (of_char (hd p) :: nat)) \<and>
     ((of_char (last p) :: nat) < 33 \<or> 128 \<le> (of_char (last p) :: nat))) spaceEncodings"
  unfolding spaceEncodings_def by simp

lemma spaceEncodings_shape:
  assumes "p \<in> set spaceEncodings"
  shows "p \<noteq> []"
    and "b \<in> set (tl p) \<Longrightarrow> (128::nat) \<le> of_char b"
    and "(of_char (hd p) :: nat) < 33 \<or> 128 \<le> (of_char (hd p) :: nat)"
    and "(of_char (last p) :: nat) < 33 \<or> 128 \<le> (of_char (last p) :: nat)"
  using assms spaceEncodings_all by (auto simp: list_all_iff)

lemma spaceWidth_zero_iff: "spaceWidth s = 0 \<longleftrightarrow> (\<forall>p \<in> set spaceEncodings. \<not> prefix p s)"
  by (auto simp: spaceWidth_def find_None_iff find_Some_iff spaceEncodings_shape(1)
      split: option.splits)

lemma spaceWidth_le: "spaceWidth s \<le> length s"
  by (auto simp: spaceWidth_def find_Some_iff prefix_def split: option.splits)

lemma spaceWidthLast_zero_iff:
  "spaceWidthLast s = 0 \<longleftrightarrow> (\<forall>p \<in> set spaceEncodings. \<not> suffix p s)"
  by (auto simp: spaceWidthLast_def find_None_iff find_Some_iff spaceEncodings_shape(1)
      split: option.splits)

text \<open>Bytes after a white space rune's first byte are not ASCII: appending a string that
  starts with an ASCII byte changes no match.\<close>

lemma prefix_encoding_append:
  assumes "p \<in> set spaceEncodings" and "s \<noteq> []"
    and "t = [] \<or> (of_char (hd t) :: nat) < 128"
  shows "prefix p (s @ t) \<longleftrightarrow> prefix p s"
proof
  assume a: "prefix p (s @ t)"
  show "prefix p s"
  proof (rule ccontr)
    assume np: "\<not> prefix p s"
    with a obtain us where p: "p = s @ us" and "prefix us t"
      by (auto simp: prefix_append)
    with np obtain u us' where us: "us = u # us'" by (cases us) auto
    with \<open>prefix us t\<close> have "t \<noteq> []" and "hd t = u" by (auto simp: prefix_def)
    moreover from p us \<open>s \<noteq> []\<close> have "u \<in> set (tl p)" by (cases s) auto
    ultimately show False
      using assms(3) spaceEncodings_shape(2) [OF assms(1), of u] by auto
  qed
qed simp

lemma spaceWidth_append:
  assumes "s \<noteq> []" and "t = [] \<or> (of_char (hd t) :: nat) < 128"
  shows "spaceWidth (s @ t) = spaceWidth s"
proof -
  have "List.find (\<lambda>p. prefix p (s @ t)) spaceEncodings = List.find (\<lambda>p. prefix p s) spaceEncodings"
    using assms by (intro find_cong) (auto simp: prefix_encoding_append)
  then show ?thesis by (simp add: spaceWidth_def)
qed

lemma spaceWidth_plain:
  assumes "(33::nat) \<le> of_char c" and "of_char c < (128::nat)"
  shows "spaceWidth (c # cs) = 0"
proof -
  have "\<not> prefix p (c # cs)" if "p \<in> set spaceEncodings" for p
  proof
    assume "prefix p (c # cs)"
    with spaceEncodings_shape(1) [OF that] have "hd p = c" by (cases p) auto
    with assms spaceEncodings_shape(3) [OF that] show False by auto
  qed
  then show ?thesis by (simp add: spaceWidth_zero_iff)
qed

lemma spaceWidthLast_plain:
  assumes "s \<noteq> []" and "(33::nat) \<le> of_char (last s)" and "of_char (last s) < (128::nat)"
  shows "spaceWidthLast s = 0"
proof -
  have "\<not> suffix p s" if "p \<in> set spaceEncodings" for p
  proof
    assume "suffix p s"
    with spaceEncodings_shape(1) [OF that] assms(1) have "last p = last s"
      by (auto simp: suffix_def)
    with assms spaceEncodings_shape(4) [OF that] show False by auto
  qed
  then show ?thesis by (simp add: spaceWidthLast_zero_iff)
qed

lemma spaceWidth_space [simp]: "spaceWidth (CHR 0x20 # cs) = 1"
  by (simp add: spaceWidth_def spaceEncodings_def)

lemma spaceWidth_CR [simp]: "spaceWidth (CHR 0x0D # cs) = 1"
  by (simp add: spaceWidth_def spaceEncodings_def)

lemma spaceWidth_Nil [simp]: "spaceWidth [] = 0"
  by (simp add: spaceWidth_def spaceEncodings_def)

lemma spaceWidthLast_Nil [simp]: "spaceWidthLast [] = 0"
  by (simp add: spaceWidthLast_def spaceEncodings_def)

subsection \<open>\<^verbatim>\<open>Fields\<close> and \<^verbatim>\<open>Join\<close>\<close>

lemma fieldsFrom_length: "length (concat (fieldsFrom cur s)) \<le> length cur + length s"
proof (induction cur s rule: fieldsFrom.induct)
  case (1 cur)
  show ?case by simp
next
  case (2 cur c cs)
  show ?case
  proof (cases "spaceWidth (c # cs) = 0")
    case True
    with 2 show ?thesis by simp
  next
    case False
    with 2 have "length (concat (fieldsFrom [] (drop (spaceWidth (c # cs) - 1) cs)))
        \<le> length (drop (spaceWidth (c # cs) - 1) cs)"
      by simp
    with False show ?thesis by (simp add: Let_def)
  qed
qed

text \<open>A string that is one field is read byte by byte into the field, also when an ASCII
  byte follows it.\<close>

lemma fieldsFrom_token_append:
  assumes "fieldsFrom cur s = [cur @ s]" and "t = [] \<or> (of_char (hd t) :: nat) < 128"
  shows "fieldsFrom cur (s @ t) = fieldsFrom (cur @ s) t"
  using assms(1)
proof (induction s arbitrary: cur)
  case Nil
  show ?case by simp
next
  case (Cons c cs)
  have w: "spaceWidth (c # cs) = 0"
  proof (rule ccontr)
    assume nz: "spaceWidth (c # cs) \<noteq> 0"
    show False
    proof (cases "cur = []")
      case True
      with nz Cons.prems
      have "fieldsFrom [] (drop (spaceWidth (c # cs) - 1) cs) = [c # cs]"
        by (simp add: Let_def)
      with fieldsFrom_length [of "[]" "drop (spaceWidth (c # cs) - 1) cs"]
      show False by simp
    next
      case False
      with nz Cons.prems show False by (simp add: Let_def)
    qed
  qed
  with Cons.prems have "fieldsFrom (cur @ [c]) cs = [(cur @ [c]) @ cs]" by simp
  then have "fieldsFrom (cur @ [c]) (cs @ t) = fieldsFrom ((cur @ [c]) @ cs) t"
    by (rule Cons.IH)
  moreover have "spaceWidth ((c # cs) @ t) = 0"
    using spaceWidth_append [of "c # cs" t] assms(2) w by simp
  ultimately show ?case by simp
qed

lemma Fields_token_space:
  assumes "Fields tok = [tok]"
  shows "Fields (tok @ CHR 0x20 # rest) = tok # Fields rest"
proof -
  from assms have "tok \<noteq> []" by (auto simp: Fields_def)
  moreover have "fieldsFrom [] (tok @ CHR 0x20 # rest) = fieldsFrom ([] @ tok) (CHR 0x20 # rest)"
    using assms by (intro fieldsFrom_token_append) (simp_all add: Fields_def)
  ultimately show ?thesis by (simp add: Fields_def)
qed

lemma fieldsFrom_plain:
  assumes "\<forall>c \<in> set s. (33::nat) \<le> of_char c \<and> of_char c < (128::nat)"
  shows "fieldsFrom cur s = (if cur @ s = [] then [] else [cur @ s])"
  using assms by (induction s arbitrary: cur) (simp_all add: spaceWidth_plain)

lemma Fields_plain:
  "s \<noteq> [] \<Longrightarrow> \<forall>c \<in> set s. (33::nat) \<le> of_char c \<and> of_char c < (128::nat) \<Longrightarrow> Fields s = [s]"
  by (simp add: Fields_def fieldsFrom_plain)

text \<open>A carriage return at the end of a line is white space.\<close>

lemma fieldsFrom_CR: "fieldsFrom cur (s @ [CHR 0x0D]) = fieldsFrom cur s"
proof (induction cur s rule: fieldsFrom.induct)
  case (1 cur)
  show ?case by simp
next
  case (2 cur c cs)
  have w: "spaceWidth ((c # cs) @ [CHR 0x0D]) = spaceWidth (c # cs)"
    by (rule spaceWidth_append) simp_all
  show ?case
  proof (cases "spaceWidth (c # cs) = 0")
    case True
    with 2 w show ?thesis by simp
  next
    case False
    moreover have "spaceWidth (c # cs) - 1 \<le> length cs"
      using spaceWidth_le [of "c # cs"] by simp
    ultimately show ?thesis
      using 2 w by (simp add: Let_def)
  qed
qed

lemma Fields_dropCR: "Fields (dropCR s) = Fields s"
proof (cases "s \<noteq> [] \<and> last s = CHR 0x0D")
  case True
  then have "s = butlast s @ [CHR 0x0D]" by (metis append_butlast_last_id)
  then have "Fields s = Fields (butlast s)"
    using fieldsFrom_CR [of "[]" "butlast s"] by (simp add: Fields_def)
  with True show ?thesis by (simp add: dropCR_def)
next
  case False
  then show ?thesis by (auto simp: dropCR_def)
qed

lemma Join_Cons: "Join (x # xs) sep = x @ (if xs = [] then [] else sep @ Join xs sep)"
  by (cases xs) simp_all

subsection \<open>\<^verbatim>\<open>Index\<close>, \<^verbatim>\<open>Contains\<close>, \<^verbatim>\<open>Split\<close>\<close>

lemma Index_prefix: "prefix sub s \<Longrightarrow> Index s sub = Some 0"
  by (cases s) auto

lemma Index_skip:
  assumes "sub \<noteq> []" and "hd sub \<notin> set a"
  shows "Index (a @ b) sub = map_option (\<lambda>m. length a + m) (Index b sub)"
  using assms(2)
proof (induction a)
  case Nil
  show ?case by (simp add: option.map_ident)
next
  case (Cons x a)
  with assms(1) have "\<not> prefix sub (x # a @ b)"
    by (cases sub) auto
  with Cons show ?case
    by (simp add: option.map_comp comp_def)
qed

lemma Contains_skip: "sub \<noteq> [] \<Longrightarrow> hd sub \<notin> set a \<Longrightarrow> Contains (a @ b) sub = Contains b sub"
  by (simp add: Contains_def Index_skip del: Index.simps)

lemma Index_absent: "sub \<noteq> [] \<Longrightarrow> hd sub \<notin> set s \<Longrightarrow> Index s sub = None"
  using Index_skip [of sub s "[]"] by simp

lemma Contains_absent: "sub \<noteq> [] \<Longrightarrow> hd sub \<notin> set s \<Longrightarrow> \<not> Contains s sub"
  by (simp add: Contains_def Index_absent del: Index.simps)

lemma Index_append_sub: "Index (a @ b @ c) b \<noteq> None"
proof (induction a)
  case Nil
  have "prefix b (b @ c)" by simp
  then show ?case by (cases "b @ c") auto
next
  case (Cons x a)
  then show ?case by auto
qed

lemma Contains_infix: "Contains (a @ b @ c) b"
  by (simp add: Contains_def Index_append_sub del: Index.simps)

lemma Split_None: "sep \<noteq> [] \<Longrightarrow> Index s sep = None \<Longrightarrow> Split s sep = [s]"
  by (subst Split.simps) simp

lemma Split_Some:
  "sep \<noteq> [] \<Longrightarrow> Index s sep = Some m \<Longrightarrow>
   Split s sep = take m s # Split (drop (m + length sep) s) sep"
  by (subst Split.simps) simp

text \<open>The first two elements of \<^verbatim>\<open>Split\<close>, by \<open>textUpTo\<close> and \<open>textAfterFirst\<close>.\<close>

lemma Split_hd: "sep \<noteq> [] \<Longrightarrow> hd (Split s sep) = textUpTo s sep"
  by (cases "Index s sep") (simp_all add: Split_None Split_Some textUpTo_def del: Index.simps)

lemma Split_second:
  "sep \<noteq> [] \<Longrightarrow> Contains s sep \<Longrightarrow> Split s sep ! 1 = textUpTo (textAfterFirst s sep) sep"
  by (cases "Index s sep")
    (auto simp: Split_Some textAfterFirst_def Contains_def Split_hd hd_conv_nth [symmetric] Split_not_Nil
      simp del: Index.simps)

lemma textUpTo_skip:
  assumes "sub \<noteq> []" and "hd sub \<notin> set a"
  shows "\<exists>y. textUpTo (a @ b) sub = a @ y"
  by (cases "Index b sub") (simp_all add: textUpTo_def Index_skip [OF assms] del: Index.simps)

lemma textUpTo_at: "sub \<noteq> [] \<Longrightarrow> hd sub \<notin> set a \<Longrightarrow> textUpTo (a @ sub @ b) sub = a"
  by (simp add: textUpTo_def Index_skip Index_prefix del: Index.simps)

lemma textUpTo_absent: "\<not> Contains s sub \<Longrightarrow> textUpTo s sub = s"
  by (simp add: textUpTo_def Contains_def del: Index.simps)

lemma textAfterFirst_at:
  "sub \<noteq> [] \<Longrightarrow> hd sub \<notin> set a \<Longrightarrow> textAfterFirst (a @ sub @ b) sub = b"
  by (simp add: textAfterFirst_def Index_skip Index_prefix del: Index.simps)

subsection \<open>\<^verbatim>\<open>TrimSpace\<close>\<close>

lemma trimRight_plain:
  "s \<noteq> [] \<Longrightarrow> (33::nat) \<le> of_char (last s) \<Longrightarrow> of_char (last s) < (128::nat) \<Longrightarrow>
   trimRight s = s"
  by (subst trimRight.simps) (simp add: spaceWidthLast_plain)

lemma TrimSpace_Nil [simp]: "TrimSpace [] = []"
  by (simp add: TrimSpace_def trimRight.simps [of "[]"])

lemma TrimSpace_space [simp]: "TrimSpace (CHR 0x20 # s) = TrimSpace s"
  by (simp add: TrimSpace_def)

lemma TrimSpace_plain:
  assumes "s \<noteq> []" and "\<forall>c \<in> set s. (33::nat) \<le> of_char c \<and> of_char c < (128::nat)"
  shows "TrimSpace s = s"
proof -
  from assms have "trimLeft s = s"
    by (cases s) (simp_all add: spaceWidth_plain)
  moreover from assms have "trimRight s = s"
    by (intro trimRight_plain) simp_all
  ultimately show ?thesis by (simp add: TrimSpace_def)
qed

subsection \<open>\<^verbatim>\<open>Atoi\<close>\<close>

lemma isDigit_plain: "isDigit c \<Longrightarrow> (33::nat) \<le> of_char c \<and> of_char c < (128::nat)"
  by (simp add: isDigit_def)

lemma foldl_digits_mono: "n \<le> foldl (\<lambda>n c. n * 10 + digitVal c) n s"
proof (induction s arbitrary: n)
  case Nil
  show ?case by simp
next
  case (Cons c s)
  have "n \<le> n * 10 + digitVal c" by simp
  also have "\<dots> \<le> foldl (\<lambda>n c. n * 10 + digitVal c) (n * 10 + digitVal c) s" by (rule Cons.IH)
  finally show ?case by simp
qed

lemma parseUintFrom_digits:
  assumes "list_all isDigit s" and "foldl (\<lambda>n c. n * 10 + digitVal c) n s < 2 ^ 64"
  shows "parseUintFrom n s = (foldl (\<lambda>n c. n * 10 + digitVal c) n s, None)"
  using assms
proof (induction s arbitrary: n)
  case Nil
  show ?case by simp
next
  case (Cons c s)
  let ?n1 = "n * 10 + digitVal c"
  have "?n1 \<le> foldl (\<lambda>n c. n * 10 + digitVal c) ?n1 s" by (rule foldl_digits_mono)
  with Cons.prems have n1: "?n1 < 2 ^ 64" by simp
  then have n: "n < (2 ^ 64 - 1) div 10 + 1" by simp
  from n1 have n10: "n * 10 < 2 ^ 64" by simp
  from Cons.prems have "parseUintFrom ?n1 s = (foldl (\<lambda>n c. n * 10 + digitVal c) ?n1 s, None)"
    by (intro Cons.IH) simp_all
  with Cons.prems n n1 n10 show ?case
    by (simp add: Let_def IntSize_def)
qed

lemma ParseUint_digits:
  "s \<noteq> [] \<Longrightarrow> list_all isDigit s \<Longrightarrow> decimalValue s < 2 ^ 64 \<Longrightarrow>
   ParseUint s = (decimalValue s, None)"
  by (simp add: ParseUint_def decimalValue_def parseUintFrom_digits)

lemma Atoi_digits:
  assumes "s \<noteq> []" and "list_all isDigit s" and "decimalValue s < 2 ^ 63"
  shows "Atoi s = (int (decimalValue s), None)"
proof -
  from assms(1,2) have "isDigit (hd s)" by (cases s) simp_all
  then have "hd s \<noteq> CHR ''+''" and "hd s \<noteq> CHR ''-''"
    by (auto simp: isDigit_def)
  moreover from assms have "ParseUint s = (decimalValue s, None)"
    by (intro ParseUint_digits) simp_all
  ultimately show ?thesis
    using assms by (simp add: Atoi_def ParseInt_def IntSize_def)
qed

text \<open>What \<^verbatim>\<open>Atoi\<close> returns with an error.\<close>

lemma parseUintFrom_error:
  "parseUintFrom n s = (v, Some e) \<Longrightarrow>
   (e = ErrSyntax \<and> v = 0) \<or> (e = ErrRange \<and> v = 2 ^ 64 - 1)"
  by (induction n s rule: parseUintFrom.induct)
    (auto simp: Let_def IntSize_def split: if_splits)

lemma Atoi_error:
  assumes "Atoi s = (v, Some e)"
  shows "(e = ErrSyntax \<and> v = 0) \<or> (e = ErrRange \<and> (v = 2 ^ 63 - 1 \<or> v = - (2 ^ 63)))"
proof (cases "s = []")
  case True
  with assms show ?thesis by (simp add: Atoi_def ParseInt_def)
next
  case False
  obtain un err where u: "ParseUint (if hd s = CHR ''+'' \<or> hd s = CHR ''-'' then tl s else s) = (un, err)"
    by (cases "ParseUint (if hd s = CHR ''+'' \<or> hd s = CHR ''-'' then tl s else s)") auto
  with assms False show ?thesis
    by (auto simp: Atoi_def ParseInt_def Let_def IntSize_def split: if_splits)
qed

subsection \<open>The scanner\<close>

lemma scanLines_Nil [simp]: "scanLines [] = []"
  by (subst scanLines.simps) simp

lemma takeWhile_line:
  assumes "CHR 0x0A \<notin> set l" and "rest = [] \<or> hd rest = CHR 0x0A"
  shows "takeWhile (\<lambda>c. c \<noteq> CHR 0x0A) (l @ rest) = l"
proof -
  from assms(1) have "takeWhile (\<lambda>c. c \<noteq> CHR 0x0A) (l @ rest) = l @ takeWhile (\<lambda>c. c \<noteq> CHR 0x0A) rest"
    by (subst takeWhile_append2) auto
  moreover from assms(2) have "takeWhile (\<lambda>c. c \<noteq> CHR 0x0A) rest = []"
    by (cases rest) auto
  ultimately show ?thesis by simp
qed

lemma scanLines_line:
  assumes "CHR 0x0A \<notin> set l" and "length l < MaxScanTokenSize"
  shows "scanLines (l @ CHR 0x0A # rest) = dropCR l # scanLines rest"
  using assms(2)
  by (subst scanLines.simps) (simp add: Let_def takeWhile_line [OF assms(1)])

lemma scanLines_last:
  assumes "CHR 0x0A \<notin> set l" and "length l < MaxScanTokenSize" and "l \<noteq> []"
  shows "scanLines l = [dropCR l]"
  using assms(2,3) takeWhile_line [OF assms(1), of "[]"]
  by (subst scanLines.simps) (simp add: Let_def del: takeWhile_eq_all_conv)

lemma scanLines_too_long:
  assumes "CHR 0x0A \<notin> set l" and "MaxScanTokenSize \<le> length l"
    and "rest = [] \<or> hd rest = CHR 0x0A"
  shows "scanLines (l @ rest) = []"
  using assms(2)
  by (subst scanLines.simps) (simp add: Let_def takeWhile_line [OF assms(1,3)])

section \<open>Properties of \<^verbatim>\<open>parseStatusLine\<close>\<close>

lemma stateMap_Some_iff:
  "stateMap s = Some code \<longleftrightarrow>
     (s, code) \<in> {(''STOPPED'', 0), (''STARTING'', 10), (''RUNNING'', 20), (''BACKOFF'', 30),
                  (''STOPPING'', 40), (''EXITED'', 100), (''FATAL'', 200), (''UNKNOWN'', 1000)}"
  unfolding stateMap_def by (subst map_of_eq_Some_iff) auto

lemma stateMap_None_iff:
  "stateMap s = None \<longleftrightarrow>
     s \<notin> {''STOPPED'', ''STARTING'', ''RUNNING'', ''BACKOFF'', ''STOPPING'', ''EXITED'',
           ''FATAL'', ''UNKNOWN''}"
  unfolding stateMap_def by (simp add: map_of_eq_None_iff)

text \<open>The four ways out of \<^verbatim>\<open>parseStatusLine\<close>, by the tests it makes.\<close>

lemma parseStatusLine_short:
  "length (Fields line) < 3 \<Longrightarrow>
   parseStatusLine line = Inl (errorString (''invalid status line: '' @ line))"
  by (simp add: parseStatusLine_def)

lemma parseStatusLine_sentinel:
  "3 \<le> length (Fields line) \<Longrightarrow>
   Contains (Join (drop 2 (Fields line)) '' '') ''no such process'' \<Longrightarrow>
   parseStatusLine line =
     Inr \<lparr>Name = Fields line ! 0, Description = ''no such process'', State = 1000,
          StateName = ''UNKNOWN'', PID = 0, Uptime = []\<rparr>"
  by (simp add: parseStatusLine_def Let_def)

lemma parseStatusLine_unknown_state:
  "3 \<le> length (Fields line) \<Longrightarrow>
   \<not> Contains (Join (drop 2 (Fields line)) '' '') ''no such process'' \<Longrightarrow>
   stateMap (Fields line ! 1) = None \<Longrightarrow>
   parseStatusLine line = Inl (errorString (''unknown state: '' @ Fields line ! 1))"
  by (simp add: parseStatusLine_def Let_def)

lemma parseStatusLine_known_state:
  "3 \<le> length (Fields line) \<Longrightarrow>
   \<not> Contains (Join (drop 2 (Fields line)) '' '') ''no such process'' \<Longrightarrow>
   stateMap (Fields line ! 1) = Some code \<Longrightarrow>
   pidUptime (Join (drop 2 (Fields line)) '' '') = Inr (pid, uptime) \<Longrightarrow>
   parseStatusLine line =
     Inr \<lparr>Name = Fields line ! 0, Description = Join (drop 2 (Fields line)) '' '',
          State = code, StateName = Fields line ! 1, PID = pid, Uptime = uptime\<rparr>"
  by (simp add: parseStatusLine_def Let_def)

lemma stateMap_pair:
  "stateMap s = Some code \<Longrightarrow>
     (code, s) \<in> {(0, ''STOPPED''), (10, ''STARTING''), (20, ''RUNNING''), (30, ''BACKOFF''),
            (40, ''STOPPING''), (100, ''EXITED''), (200, ''FATAL''), (1000, ''UNKNOWN'')}"
  unfolding stateMap_Some_iff by (elim insertE emptyE) simp_all

lemma stateMap_known:
  "stateMap s = Some code \<Longrightarrow>
     s \<in> {''STOPPED'', ''STARTING'', ''RUNNING'', ''BACKOFF'', ''STOPPING'', ''EXITED'',
           ''FATAL'', ''UNKNOWN''}"
  using stateMap_None_iff [of s] by simp

subsection \<open>Lines of a running program\<close>

lemma digit_notin: "list_all isDigit N \<Longrightarrow> \<not> isDigit c \<Longrightarrow> c \<notin> set N"
  by (auto simp: list_all_iff)

lemma pidUptime_texts:
  "pidUptime d =
     (if Contains d ''pid'' then
        Inr (fst (Atoi (TrimSpace (textUpTo (textUpTo (textAfterFirst d ''pid'') ''pid'') '',''))),
             if Contains d ''uptime''
             then TrimSpace (textUpTo (textUpTo (textAfterFirst d ''uptime'') ''uptime'') '','')
             else [])
      else Inr (0, []))"
  by (simp add: pidUptime_eq Split_hd Split_second [unfolded One_nat_def])

lemma Fields_running:
  assumes "Fields name = [name]" and "N \<noteq> []" and "list_all isDigit N"
  shows "Fields (name @ '' RUNNING pid '' @ N @ '', uptime '' @ T) =
     name # ''RUNNING'' # ''pid'' # (N @ '','') # ''uptime'' # Fields T"
proof -
  have r: "Fields ''RUNNING'' = [''RUNNING'']" and p: "Fields ''pid'' = [''pid'']"
    and u: "Fields ''uptime'' = [''uptime'']"
    by (simp_all add: Fields_plain)
  from assms(3) have "\<forall>c \<in> set (N @ '',''). (33::nat) \<le> of_char c \<and> of_char c < (128::nat)"
    by (auto simp: list_all_iff dest: isDigit_plain)
  then have n: "Fields (N @ '','') = [N @ '','']"
    by (intro Fields_plain) simp_all
  have "Fields (name @ '' RUNNING pid '' @ N @ '', uptime '' @ T) =
      name # Fields (''RUNNING pid '' @ N @ '', uptime '' @ T)"
    using Fields_token_space [OF assms(1), of "''RUNNING pid '' @ N @ '', uptime '' @ T"] by simp
  also have "Fields (''RUNNING pid '' @ N @ '', uptime '' @ T) =
      ''RUNNING'' # Fields (''pid '' @ N @ '', uptime '' @ T)"
    using Fields_token_space [OF r, of "''pid '' @ N @ '', uptime '' @ T"] by simp
  also have "Fields (''pid '' @ N @ '', uptime '' @ T) = ''pid'' # Fields (N @ '', uptime '' @ T)"
    using Fields_token_space [OF p, of "N @ '', uptime '' @ T"] by simp
  also have "Fields (N @ '', uptime '' @ T) = (N @ '','') # Fields (''uptime '' @ T)"
    using Fields_token_space [OF n, of "''uptime '' @ T"] by simp
  also have "Fields (''uptime '' @ T) = ''uptime'' # Fields T"
    using Fields_token_space [OF u, of T] by simp
  finally show ?thesis .
qed

lemma pidUptime_running:
  assumes N: "N \<noteq> []" "list_all isDigit N" "decimalValue N < 2 ^ 63"
    and T: "CHR '','' \<notin> set T" "TrimSpace T = T" "\<not> Contains T ''uptime''"
  shows "pidUptime (''pid '' @ N @ '', uptime'' @ (if T = [] then [] else '' '' @ T)) =
     Inr (int (decimalValue N), T)"
proof -
  let ?sfx = "if T = [] then [] else '' '' @ T"
  let ?d = "''pid '' @ N @ '', uptime'' @ ?sfx"
  have p: "CHR ''p'' \<notin> set N"
    by (rule digit_notin [OF N(2)]) (simp add: isDigit_def)
  have c: "CHR '','' \<notin> set N"
    by (rule digit_notin [OF N(2)]) (simp add: isDigit_def)
  have u: "CHR ''u'' \<notin> set N"
    by (rule digit_notin [OF N(2)]) (simp add: isDigit_def)
  have plain: "\<forall>c \<in> set N. (33::nat) \<le> of_char c \<and> of_char c < (128::nat)"
    using N(2) by (auto simp: list_all_iff dest: isDigit_plain)
  have cp: "Contains ?d ''pid''"
    using Contains_infix [of "[]" "''pid''"] by simp
  have cu: "Contains ?d ''uptime''"
    using Contains_infix [of "''pid '' @ N @ '', ''" "''uptime''" ?sfx] by simp
  \<comment> \<open>the PID\<close>
  have "textAfterFirst ?d ''pid'' = '' '' @ N @ '', uptime'' @ ?sfx"
    using textAfterFirst_at [of "''pid''" "[]"] by simp
  moreover obtain y where "textUpTo (('' '' @ N @ '', u'') @ ''ptime'' @ ?sfx) ''pid'' =
      ('' '' @ N @ '', u'') @ y"
    using textUpTo_skip [of "''pid''" "'' '' @ N @ '', u''" "''ptime'' @ ?sfx"] p by auto
  moreover have "textUpTo (('' '' @ N) @ '','' @ '' u'' @ y) '','' = '' '' @ N"
    using c by (intro textUpTo_at) simp_all
  ultimately have "textUpTo (textUpTo (textAfterFirst ?d ''pid'') ''pid'') '','' = '' '' @ N"
    by simp
  moreover have "TrimSpace ('' '' @ N) = N"
    using TrimSpace_plain [OF N(1) plain] by simp
  ultimately have pid: "fst (Atoi (TrimSpace (textUpTo (textUpTo (textAfterFirst ?d ''pid'') ''pid'') '','')))
      = int (decimalValue N)"
    using Atoi_digits [OF N] by simp
  \<comment> \<open>the uptime\<close>
  have "textAfterFirst ((''pid '' @ N @ '', '') @ ''uptime'' @ ?sfx) ''uptime'' = ?sfx"
    using u by (intro textAfterFirst_at) simp_all
  moreover have "\<not> Contains ?sfx ''uptime''"
    using T(3) Contains_skip [of "''uptime''" "'' ''" T] by (simp add: Contains_def)
  moreover have "\<not> Contains ?sfx '',''"
    using T(1) by (intro Contains_absent) simp_all
  ultimately have "textUpTo (textUpTo (textAfterFirst ?d ''uptime'') ''uptime'') '','' = ?sfx"
    by (simp add: textUpTo_absent)
  moreover have "TrimSpace ?sfx = T"
    using T(2) by simp
  ultimately have up: "TrimSpace (textUpTo (textUpTo (textAfterFirst ?d ''uptime'') ''uptime'') '','') = T"
    by simp
  show ?thesis
    unfolding pidUptime_texts using cp cu pid up by (simp only: if_True)
qed

lemma parseStatusLine_fields:
  assumes "Fields line = name # state # rest" and "rest \<noteq> []"
    and "\<not> Contains (Join rest '' '') ''no such process''"
    and "stateMap state = Some code"
    and "pidUptime (Join rest '' '') = Inr (pid, uptime)"
  shows "parseStatusLine line =
     Inr \<lparr>Name = name, Description = Join rest '' '', State = code, StateName = state,
          PID = pid, Uptime = uptime\<rparr>"
proof -
  from assms(1,2) have "3 \<le> length (Fields line)"
    by (cases rest) simp_all
  then show ?thesis
    using assms parseStatusLine_known_state [of line code pid uptime] by simp
qed

lemma parseStatusLine_running_line:
  assumes name: "Fields name = [name]"
    and N: "N \<noteq> []" "list_all isDigit N" "decimalValue N < 2 ^ 63"
    and T: "CHR '','' \<notin> set T" "TrimSpace T = T" "Join (Fields T) '' '' = T"
      "\<not> Contains T ''uptime''" "\<not> Contains T ''no such process''"
  shows "parseStatusLine (name @ '' RUNNING pid '' @ N @ '', uptime '' @ T) =
     Inr \<lparr>Name = name,
          Description = ''pid '' @ N @ '', uptime'' @ (if T = [] then [] else '' '' @ T),
          State = 20, StateName = ''RUNNING'', PID = int (decimalValue N), Uptime = T\<rparr>"
proof -
  let ?line = "name @ '' RUNNING pid '' @ N @ '', uptime '' @ T"
  let ?sfx = "if T = [] then [] else '' '' @ T"
  let ?d = "''pid '' @ N @ '', uptime'' @ ?sfx"
  let ?rest = "''pid'' # (N @ '','') # ''uptime'' # Fields T"
  have f: "Fields ?line = name # ''RUNNING'' # ?rest"
    using name N(1,2) by (rule Fields_running)
  have e: "Fields T = [] \<longleftrightarrow> T = []"
    using T(3) by (auto simp: Fields_def)
  have d: "Join ?rest '' '' = ?d"
    using T(3) e by (simp add: Join_Cons)
  have "CHR ''n'' \<notin> set N"
    by (rule digit_notin [OF N(2)]) (simp add: isDigit_def)
  then have n: "CHR ''n'' \<notin> set (''pid '' @ N @ '', uptime'' @ (if T = [] then [] else '' ''))"
    by simp
  have "Contains ((''pid '' @ N @ '', uptime'' @ (if T = [] then [] else '' '')) @ T) ''no such process''
      = Contains T ''no such process''"
    using n by (intro Contains_skip) simp_all
  with T(5) have nsp: "\<not> Contains ?d ''no such process''"
    by (cases "T = []") simp_all
  have s: "stateMap ''RUNNING'' = Some 20"
    by (simp add: stateMap_def)
  have "parseStatusLine ?line =
     Inr \<lparr>Name = name, Description = Join ?rest '' '', State = 20, StateName = ''RUNNING'',
          PID = int (decimalValue N), Uptime = T\<rparr>"
  proof (rule parseStatusLine_fields [OF f])
    show "?rest \<noteq> []" by simp
    show "\<not> Contains (Join ?rest '' '') ''no such process''"
      unfolding d by (rule nsp)
    show "stateMap ''RUNNING'' = Some 20" by (rule s)
    show "pidUptime (Join ?rest '' '') = Inr (int (decimalValue N), T)"
      unfolding d by (rule pidUptime_running [OF N T(1,2,4)])
  qed
  then show ?thesis
    unfolding d .
qed

lemma parseStatusLine_pid:
  assumes "3 \<le> length (Fields line)"
    and "\<not> Contains (Join (drop 2 (Fields line)) '' '') ''no such process''"
    and "stateMap (Fields line ! 1) = Some code"
    and "Contains (Join (drop 2 (Fields line)) '' '') ''pid''"
  shows "\<exists>p. parseStatusLine line = Inr p \<and>
     PID p = fst (Atoi (TrimSpace (textUpTo (textUpTo
       (textAfterFirst (Join (drop 2 (Fields line)) '' '') ''pid'') ''pid'') '','')))"
proof -
  let ?d = "Join (drop 2 (Fields line)) '' ''"
  obtain uptime where "pidUptime ?d =
      Inr (fst (Atoi (TrimSpace (textUpTo (textUpTo (textAfterFirst ?d ''pid'') ''pid'') '',''))),
           uptime)"
    using assms(4) by (simp add: pidUptime_texts)
  from parseStatusLine_known_state [OF assms(1-3) this] show ?thesis
    by simp
qed

text \<open>No index expression of \<^verbatim>\<open>parseStatusLine\<close> panics.\<close>

lemma parseStatusLine_no_panic: "parseStatusLine line \<noteq> Inl IndexOutOfRange"
proof -
  let ?d = "Join (drop 2 (Fields line)) '' ''"
  obtain pid uptime where pu: "pidUptime ?d = Inr (pid, uptime)"
    using pidUptime_returns by blast
  consider (short) "length (Fields line) < 3"
    | (sentinel) "3 \<le> length (Fields line)" "Contains ?d ''no such process''"
    | (unknown) "3 \<le> length (Fields line)" "\<not> Contains ?d ''no such process''"
        "stateMap (Fields line ! 1) = None"
    | (known) code where "3 \<le> length (Fields line)" "\<not> Contains ?d ''no such process''"
        "stateMap (Fields line ! 1) = Some code"
    by (cases "stateMap (Fields line ! 1)") force+
  then show ?thesis
  proof cases
    case short
    then show ?thesis by (simp add: parseStatusLine_short)
  next
    case sentinel
    then show ?thesis by (simp add: parseStatusLine_sentinel)
  next
    case unknown
    then show ?thesis by (simp add: parseStatusLine_unknown_state)
  next
    case known
    then show ?thesis by (simp add: parseStatusLine_known_state [OF _ _ _ pu])
  qed
qed

text \<open>
  Claim C1. A line with at least three fields whose description contains
  \<^verbatim>\<open>"no such process"\<close> is parsed without error into the record with state 1000,
  state name \<^verbatim>\<open>UNKNOWN\<close>, description \<^verbatim>\<open>"no such process"\<close>, PID 0 and empty uptime,
  whatever its second field is.
\<close>

theorem parseStatusLine_no_such_process:
  assumes "3 \<le> length (Fields line)"
    and "Contains (Join (drop 2 (Fields line)) '' '') ''no such process''"
  shows "parseStatusLine line =
     Inr \<lparr>Name = Fields line ! 0, Description = ''no such process'', State = 1000,
          StateName = ''UNKNOWN'', PID = 0, Uptime = []\<rparr>"
  using assms by (rule parseStatusLine_sentinel)

theorem parseStatusLine_no_such_process_witness:
  "3 \<le> length (Fields ''program3 ERROR (no such process)'') \<and>
   Contains (Join (drop 2 (Fields ''program3 ERROR (no such process)'')) '' '') ''no such process'' \<and>
   stateMap ''ERROR'' = None \<and>
   parseStatusLine ''program3 ERROR (no such process)'' =
     Inr \<lparr>Name = ''program3'', Description = ''no such process'', State = 1000,
          StateName = ''UNKNOWN'', PID = 0, Uptime = []\<rparr>"
proof -
  have f: "Fields ''program3 ERROR (no such process)'' =
      [''program3'', ''ERROR'', ''(no'', ''such'', ''process)'']"
    by code_simp
  have c: "Contains (Join (drop 2 (Fields ''program3 ERROR (no such process)'')) '' '')
      ''no such process''"
    unfolding f by code_simp
  have l: "3 \<le> length (Fields ''program3 ERROR (no such process)'')"
    unfolding f by simp
  have s: "stateMap ''ERROR'' = None"
    by (simp add: stateMap_None_iff)
  show ?thesis
    using parseStatusLine_no_such_process [OF l c] l c s by (simp add: f)
qed

text \<open>
  Claim C2, as the code has it. A line \<open>name\<close>, \<^verbatim>\<open>" RUNNING pid "\<close>, \<open>N\<close>, \<^verbatim>\<open>", uptime "\<close>,
  \<open>T\<close>, where \<open>name\<close> is one field, \<open>N\<close> is a string of decimal digits that denotes a
  number below \<open>2 ^ 63\<close>, and \<open>T\<close> has no comma, no white space at its ends, single
  spaces between its fields, and contains neither \<^verbatim>\<open>"uptime"\<close> nor \<^verbatim>\<open>"no such process"\<close>, is
  parsed into state 20, the PID that \<open>N\<close> denotes and the uptime \<open>T\<close>. More generally, when
  the description contains \<^verbatim>\<open>"pid"\<close>, the text after the first \<^verbatim>\<open>"pid"\<close> up to the next
  \<^verbatim>\<open>"pid"\<close> or comma, whichever comes first, is trimmed and given to \<^verbatim>\<open>Atoi\<close>, and the PID
  is what \<^verbatim>\<open>Atoi\<close> returns, its error discarded: 0 after a syntax error, the largest or the
  smallest \<^verbatim>\<open>int\<close> after a range error. No error is returned for it.
\<close>

theorem pid_uptime_extraction:
  "(Fields name = [name] \<and> N \<noteq> [] \<and> list_all isDigit N \<and> decimalValue N < 2 ^ 63 \<and>
    CHR '','' \<notin> set T \<and> TrimSpace T = T \<and> Join (Fields T) '' '' = T \<and>
    \<not> Contains T ''uptime'' \<and> \<not> Contains T ''no such process'' \<longrightarrow>
      parseStatusLine (name @ '' RUNNING pid '' @ N @ '', uptime '' @ T) =
        Inr \<lparr>Name = name,
             Description = ''pid '' @ N @ '', uptime'' @ (if T = [] then [] else '' '' @ T),
             State = 20, StateName = ''RUNNING'', PID = int (decimalValue N), Uptime = T\<rparr>) \<and>
   (3 \<le> length (Fields line) \<and>
    \<not> Contains (Join (drop 2 (Fields line)) '' '') ''no such process'' \<and>
    stateMap (Fields line ! 1) = Some code \<and>
    Contains (Join (drop 2 (Fields line)) '' '') ''pid'' \<longrightarrow>
      (let pidStr = TrimSpace (textUpTo (textUpTo
             (textAfterFirst (Join (drop 2 (Fields line)) '' '') ''pid'') ''pid'') '','')
       in (\<exists>p. parseStatusLine line = Inr p \<and> PID p = fst (Atoi pidStr)) \<and>
          (snd (Atoi pidStr) = Some ErrSyntax \<longrightarrow> fst (Atoi pidStr) = 0) \<and>
          (snd (Atoi pidStr) = Some ErrRange \<longrightarrow>
             fst (Atoi pidStr) = 2 ^ 63 - 1 \<or> fst (Atoi pidStr) = - (2 ^ 63))))"
proof (intro conjI impI)
  assume "Fields name = [name] \<and> N \<noteq> [] \<and> list_all isDigit N \<and> decimalValue N < 2 ^ 63 \<and>
    CHR '','' \<notin> set T \<and> TrimSpace T = T \<and> Join (Fields T) '' '' = T \<and>
    \<not> Contains T ''uptime'' \<and> \<not> Contains T ''no such process''"
  then show "parseStatusLine (name @ '' RUNNING pid '' @ N @ '', uptime '' @ T) =
        Inr \<lparr>Name = name,
             Description = ''pid '' @ N @ '', uptime'' @ (if T = [] then [] else '' '' @ T),
             State = 20, StateName = ''RUNNING'', PID = int (decimalValue N), Uptime = T\<rparr>"
    by (intro parseStatusLine_running_line) simp_all
next
  let ?s = "TrimSpace (textUpTo (textUpTo
             (textAfterFirst (Join (drop 2 (Fields line)) '' '') ''pid'') ''pid'') '','')"
  assume a: "3 \<le> length (Fields line) \<and>
    \<not> Contains (Join (drop 2 (Fields line)) '' '') ''no such process'' \<and>
    stateMap (Fields line ! 1) = Some code \<and>
    Contains (Join (drop 2 (Fields line)) '' '') ''pid''"
  then have "\<exists>p. parseStatusLine line = Inr p \<and> PID p = fst (Atoi ?s)"
    by (intro parseStatusLine_pid) simp_all
  moreover have "snd (Atoi ?s) = Some ErrSyntax \<longrightarrow> fst (Atoi ?s) = 0"
    using Atoi_error [of ?s "fst (Atoi ?s)" ErrSyntax] by (cases "Atoi ?s") auto
  moreover have "snd (Atoi ?s) = Some ErrRange \<longrightarrow>
      fst (Atoi ?s) = 2 ^ 63 - 1 \<or> fst (Atoi ?s) = - (2 ^ 63)"
    using Atoi_error [of ?s "fst (Atoi ?s)" ErrRange] by (cases "Atoi ?s") auto
  ultimately show "let pidStr = ?s
       in (\<exists>p. parseStatusLine line = Inr p \<and> PID p = fst (Atoi pidStr)) \<and>
          (snd (Atoi pidStr) = Some ErrSyntax \<longrightarrow> fst (Atoi pidStr) = 0) \<and>
          (snd (Atoi pidStr) = Some ErrRange \<longrightarrow>
             fst (Atoi pidStr) = 2 ^ 63 - 1 \<or> fst (Atoi pidStr) = - (2 ^ 63))"
    by (simp only: Let_def simp_thms)
qed

theorem pid_uptime_extraction_witness:
  "parseStatusLine ''program1 RUNNING pid 123, uptime 1:23:45'' =
     Inr \<lparr>Name = ''program1'', Description = ''pid 123, uptime 1:23:45'', State = 20,
          StateName = ''RUNNING'', PID = 123, Uptime = ''1:23:45''\<rparr> \<and>
   (\<exists>p. parseStatusLine ''p RUNNING pid abc, uptime 3'' = Inr p \<and> PID p = 0) \<and>
   (\<exists>p. parseStatusLine ''p RUNNING pid 99999999999999999999'' = Inr p \<and>
        PID p = 2 ^ 63 - 1)"
proof -
  have n: "Fields ''program1'' = [''program1'']"
    by (simp add: Fields_plain)
  have d: "list_all isDigit ''123''" "decimalValue ''123'' = 123"
    by (simp_all add: isDigit_def decimalValue_def digitVal_def)
  have t: "TrimSpace ''1:23:45'' = ''1:23:45''" "Join (Fields ''1:23:45'') '' '' = ''1:23:45''"
    "\<not> Contains ''1:23:45'' ''uptime''" "\<not> Contains ''1:23:45'' ''no such process''"
    by code_simp+
  have f2: "Fields ''p RUNNING pid abc, uptime 3'' = [''p'', ''RUNNING'', ''pid'', ''abc,'', ''uptime'', ''3'']"
    by code_simp
  have c2: "\<not> Contains ''pid abc, uptime 3'' ''no such process''" "Contains ''pid abc, uptime 3'' ''pid''"
    "TrimSpace (textUpTo (textUpTo (textAfterFirst ''pid abc, uptime 3'' ''pid'') ''pid'') '','') = ''abc''"
    by code_simp+
  have a2: "Atoi ''abc'' = (0, Some ErrSyntax)"
    by code_simp
  have f3: "Fields ''p RUNNING pid 99999999999999999999'' = [''p'', ''RUNNING'', ''pid'', ''99999999999999999999'']"
    by code_simp
  have c3: "\<not> Contains ''pid 99999999999999999999'' ''no such process''"
    "Contains ''pid 99999999999999999999'' ''pid''"
    "TrimSpace (textUpTo (textUpTo (textAfterFirst ''pid 99999999999999999999'' ''pid'') ''pid'') '','')
       = ''99999999999999999999''"
    by code_simp+
  have a3: "Atoi ''99999999999999999999'' = (9223372036854775807, Some ErrRange)"
    by code_simp
  have s: "stateMap ''RUNNING'' = Some 20"
    by (simp add: stateMap_def)
  show ?thesis
    using pid_uptime_extraction [of "''program1''" "''123''" "''1:23:45''"
        "''p RUNNING pid abc, uptime 3''" 20]
      pid_uptime_extraction [of "''program1''" "''123''" "''1:23:45''"
        "''p RUNNING pid 99999999999999999999''" 20]
    by (simp add: n d t f2 c2 a2 f3 c3 a3 s Let_def isDigit_def)
qed

text \<open>
  Claim C2 as the spec states it fails: a PID beyond the range of \<^verbatim>\<open>int\<close> is a failed
  parse that yields the largest \<^verbatim>\<open>int\<close>, not 0 and not the number written; an uptime
  text with two spaces in a row is returned with one; an uptime text that contains
  \<^verbatim>\<open>"no such process"\<close> turns the record into the one of state 1000; an uptime text
  that starts with \<^verbatim>\<open>"uptime"\<close> is returned empty; and a second \<^verbatim>\<open>"pid"\<close> before the
  comma ends the PID text.
\<close>

theorem pid_uptime_extraction_counterexample:
  "parseStatusLine ''p RUNNING pid 99999999999999999999, uptime 1:23'' =
     Inr \<lparr>Name = ''p'', Description = ''pid 99999999999999999999, uptime 1:23'', State = 20,
          StateName = ''RUNNING'', PID = 9223372036854775807, Uptime = ''1:23''\<rparr> \<and>
   parseStatusLine ''p RUNNING pid 7, uptime a  b'' =
     Inr \<lparr>Name = ''p'', Description = ''pid 7, uptime a b'', State = 20,
          StateName = ''RUNNING'', PID = 7, Uptime = ''a b''\<rparr> \<and>
   parseStatusLine ''p RUNNING pid 7, uptime no such process'' =
     Inr \<lparr>Name = ''p'', Description = ''no such process'', State = 1000,
          StateName = ''UNKNOWN'', PID = 0, Uptime = []\<rparr> \<and>
   parseStatusLine ''p RUNNING pid 7, uptime uptime 3'' =
     Inr \<lparr>Name = ''p'', Description = ''pid 7, uptime uptime 3'', State = 20,
          StateName = ''RUNNING'', PID = 7, Uptime = []\<rparr> \<and>
   parseStatusLine ''p RUNNING pid 12pid3, uptime 3'' =
     Inr \<lparr>Name = ''p'', Description = ''pid 12pid3, uptime 3'', State = 20,
          StateName = ''RUNNING'', PID = 12, Uptime = ''3''\<rparr>"
  by (intro conjI; code_simp)

text \<open>
  Claim C3. \<^verbatim>\<open>parseStatusLine\<close> returns an error exactly when the line has fewer than
  three fields, or has three or more, a description without \<^verbatim>\<open>"no such process"\<close> and a
  second field outside the table of states. The first error is
  \<^verbatim>\<open>"invalid status line: "\<close> followed by the line, the second is \<^verbatim>\<open>"unknown state: "\<close>
  followed by the second field. No index expression panics.
\<close>

theorem parseStatusLine_error_iff:
  "let parts = Fields line;
       description = Join (drop 2 parts) '' '';
       invalid = (length parts < 3);
       unknown = (3 \<le> length parts \<and> \<not> Contains description ''no such process'' \<and>
                  parts ! 1 \<notin> {''STOPPED'', ''STARTING'', ''RUNNING'', ''BACKOFF'',
                                ''STOPPING'', ''EXITED'', ''FATAL'', ''UNKNOWN''})
   in ((\<exists>e. parseStatusLine line = Inl e) \<longleftrightarrow> invalid \<or> unknown) \<and>
      (invalid \<longrightarrow> parseStatusLine line = Inl (errorString (''invalid status line: '' @ line))) \<and>
      (unknown \<longrightarrow>
         parseStatusLine line = Inl (errorString (''unknown state: '' @ parts ! 1)))"
proof -
  let ?d = "Join (drop 2 (Fields line)) '' ''"
  consider (short) "length (Fields line) < 3"
    | (sentinel) "3 \<le> length (Fields line)" "Contains ?d ''no such process''"
    | (unknown) "3 \<le> length (Fields line)" "\<not> Contains ?d ''no such process''"
        "stateMap (Fields line ! 1) = None"
    | (known) code where "3 \<le> length (Fields line)" "\<not> Contains ?d ''no such process''"
        "stateMap (Fields line ! 1) = Some code"
    by (cases "stateMap (Fields line ! 1)") force+
  then show ?thesis
  proof cases
    case short
    then show ?thesis
      by (simp add: parseStatusLine_short Let_def)
  next
    case sentinel
    then show ?thesis
      by (simp add: parseStatusLine_sentinel Let_def)
  next
    case unknown
    then show ?thesis
      using parseStatusLine_unknown_state [of line]
      by (simp add: Let_def stateMap_None_iff)
  next
    case known
    obtain pid uptime where "pidUptime ?d = Inr (pid, uptime)"
      using pidUptime_returns by blast
    with known have "parseStatusLine line =
       Inr \<lparr>Name = Fields line ! 0, Description = ?d,
          State = code, StateName = Fields line ! 1, PID = pid, Uptime = uptime\<rparr>"
      by (simp add: parseStatusLine_known_state)
    moreover from known have "Fields line ! 1 \<in> {''STOPPED'', ''STARTING'', ''RUNNING'', ''BACKOFF'',
                                ''STOPPING'', ''EXITED'', ''FATAL'', ''UNKNOWN''}"
      using stateMap_None_iff [of "Fields line ! 1"] by simp
    ultimately show ?thesis
      using known by (simp add: Let_def)
  qed
qed

theorem parseStatusLine_error_iff_witness:
  "parseStatusLine ''invalid'' = Inl (errorString ''invalid status line: invalid'') \<and>
   parseStatusLine ''prog WEIRD blah'' = Inl (errorString ''unknown state: WEIRD'') \<and>
   (\<nexists>e. parseStatusLine ''program2 STOPPED not started'' = Inl e)"
proof -
  have f1: "Fields ''invalid'' = [''invalid'']"
    by code_simp
  have f2: "Fields ''prog WEIRD blah'' = [''prog'', ''WEIRD'', ''blah'']"
    by code_simp
  have c2: "\<not> Contains ''blah'' ''no such process''"
    by code_simp
  have f3: "Fields ''program2 STOPPED not started'' = [''program2'', ''STOPPED'', ''not'', ''started'']"
    by code_simp
  have c3: "\<not> Contains ''not started'' ''no such process''"
    by code_simp
  show ?thesis
    using parseStatusLine_error_iff [of "''invalid''"]
      parseStatusLine_error_iff [of "''prog WEIRD blah''"]
      parseStatusLine_error_iff [of "''program2 STOPPED not started''"]
    by (simp add: f1 f2 f3 c2 c3 Let_def)
qed

text \<open>
  Claim C4. The state code and the state name of every record that \<^verbatim>\<open>parseStatusLine\<close>
  returns are a pair of the table of states. A line whose second field is outside the
  table yields a record only through the description \<^verbatim>\<open>"no such process"\<close>, and then the
  record of state 1000 and name \<^verbatim>\<open>UNKNOWN\<close>: never a record that carries the field with a
  state code of its own.
\<close>

theorem parseStatusLine_matched_pair:
  assumes "parseStatusLine line = Inr p"
  shows "(State p, StateName p) \<in>
           {(0, ''STOPPED''), (10, ''STARTING''), (20, ''RUNNING''), (30, ''BACKOFF''),
            (40, ''STOPPING''), (100, ''EXITED''), (200, ''FATAL''), (1000, ''UNKNOWN'')} \<and>
         (Fields line ! 1 \<notin> {''STOPPED'', ''STARTING'', ''RUNNING'', ''BACKOFF'',
                              ''STOPPING'', ''EXITED'', ''FATAL'', ''UNKNOWN''} \<longrightarrow>
            Contains (Join (drop 2 (Fields line)) '' '') ''no such process'' \<and>
            p = \<lparr>Name = Fields line ! 0, Description = ''no such process'', State = 1000,
                 StateName = ''UNKNOWN'', PID = 0, Uptime = []\<rparr>)"
proof -
  let ?d = "Join (drop 2 (Fields line)) '' ''"
  consider (short) "length (Fields line) < 3"
    | (sentinel) "3 \<le> length (Fields line)" "Contains ?d ''no such process''"
    | (unknown) "3 \<le> length (Fields line)" "\<not> Contains ?d ''no such process''"
        "stateMap (Fields line ! 1) = None"
    | (known) code where "3 \<le> length (Fields line)" "\<not> Contains ?d ''no such process''"
        "stateMap (Fields line ! 1) = Some code"
    by (cases "stateMap (Fields line ! 1)") force+
  then show ?thesis
  proof cases
    case short
    with assms show ?thesis
      by (simp add: parseStatusLine_short)
  next
    case sentinel
    with assms have "p = \<lparr>Name = Fields line ! 0, Description = ''no such process'', State = 1000,
                 StateName = ''UNKNOWN'', PID = 0, Uptime = []\<rparr>"
      by (simp add: parseStatusLine_sentinel)
    with sentinel show ?thesis
      by simp
  next
    case unknown
    with assms show ?thesis
      by (simp add: parseStatusLine_unknown_state)
  next
    case known
    obtain pid uptime where "pidUptime ?d = Inr (pid, uptime)"
      using pidUptime_returns by blast
    with known assms have p: "p =
       \<lparr>Name = Fields line ! 0, Description = ?d,
          State = code, StateName = Fields line ! 1, PID = pid, Uptime = uptime\<rparr>"
      by (simp add: parseStatusLine_known_state)
    have "State p = code" and "StateName p = Fields line ! 1"
      by (simp_all add: p)
    then show ?thesis
      using stateMap_pair [OF known(3)] stateMap_known [OF known(3)]
      by (simp only: simp_thms)
  qed
qed

theorem parseStatusLine_matched_pair_witness:
  "parseStatusLine ''program2 STOPPED not started'' =
     Inr \<lparr>Name = ''program2'', Description = ''not started'', State = 0,
          StateName = ''STOPPED'', PID = 0, Uptime = []\<rparr> \<and>
   (0, ''STOPPED'') \<in>
     {(0, ''STOPPED''), (10, ''STARTING''), (20, ''RUNNING''), (30, ''BACKOFF''),
      (40, ''STOPPING''), (100, ''EXITED''), (200, ''FATAL''), (1000::int, ''UNKNOWN'')} \<and>
   Fields ''program3 ERROR (no such process)'' ! 1 = ''ERROR'' \<and>
   parseStatusLine ''program3 ERROR (no such process)'' =
     Inr \<lparr>Name = ''program3'', Description = ''no such process'', State = 1000,
          StateName = ''UNKNOWN'', PID = 0, Uptime = []\<rparr>"
proof -
  have p2: "parseStatusLine ''program2 STOPPED not started'' =
     Inr \<lparr>Name = ''program2'', Description = ''not started'', State = 0,
          StateName = ''STOPPED'', PID = 0, Uptime = []\<rparr>"
    by code_simp
  have f3: "Fields ''program3 ERROR (no such process)'' =
      [''program3'', ''ERROR'', ''(no'', ''such'', ''process)'']"
    by code_simp
  have p3: "parseStatusLine ''program3 ERROR (no such process)'' =
     Inr \<lparr>Name = ''program3'', Description = ''no such process'', State = 1000,
          StateName = ''UNKNOWN'', PID = 0, Uptime = []\<rparr>"
    by code_simp
  show ?thesis
    using parseStatusLine_matched_pair [OF p2] parseStatusLine_matched_pair [OF p3]
    by (simp add: p2 p3 f3)
qed

section \<open>Properties of the invocations\<close>

lemma statusArgs_eq:
  "statusArgs c opts =
     (if configFile c = [] then [] else [''-c'', configFile c]) @ ''status'' # Names opts"
  by (simp add: statusArgs_def Let_def)

lemma controlArgs_eq:
  "controlArgs c action programName =
     (if configFile c = [] then [] else [''-c'', configFile c]) @ [action, programName]"
  by (simp add: controlArgs_def Let_def)

text \<open>What \<^verbatim>\<open>Status\<close> makes of the output and the error of the command.\<close>

lemma Status_no_error:
  "Output (commandExecutor c ''supervisorctl'' (statusArgs c opts)) = (output, None) \<Longrightarrow>
   Status c opts = parseOutput output"
  by (simp add: Status_def)

lemma Status_exit_tolerated:
  "Output (commandExecutor c ''supervisorctl'' (statusArgs c opts)) =
     (output, Some (ExitError code msg)) \<Longrightarrow>
   code = 3 \<or> code = 4 \<Longrightarrow>
   Status c opts = parseOutput output"
  by (auto simp: Status_def)

lemma Status_exit_error:
  "Output (commandExecutor c ''supervisorctl'' (statusArgs c opts)) =
     (output, Some (ExitError code msg)) \<Longrightarrow>
   code \<noteq> 3 \<Longrightarrow> code \<noteq> 4 \<Longrightarrow>
   Status c opts =
     ([], Some (wrapError (''failed to get status: '' @ msg @ '' - output '' @ output @ '' '')
                 (ExitError code msg)))"
  by (simp add: Status_def)

lemma Status_other_error:
  "Output (commandExecutor c ''supervisorctl'' (statusArgs c opts)) = (output, Some e) \<Longrightarrow>
   \<forall>code msg. e \<noteq> ExitError code msg \<Longrightarrow>
   Status c opts = ([], Some (wrapError (''failed to get status: '' @ Error e) e))"
  by (cases e) (simp_all add: Status_def)

text \<open>
  Claim C6. \<^verbatim>\<open>Status\<close> runs \<^verbatim>\<open>supervisorctl\<close> with the argument list \<^verbatim>\<open>"status"\<close> followed by
  the names in their order (\<^verbatim>\<open>"status"\<close> alone when there are none), and \<^verbatim>\<open>Start\<close>, \<^verbatim>\<open>Stop\<close>
  and \<^verbatim>\<open>Restart\<close> run it with the action followed by the program name; when the client's
  configuration file path is not empty, \<^verbatim>\<open>"-c"\<close> and the path come first in each list.
  What each operation returns is what it makes of the command that the executor builds
  for \<^verbatim>\<open>supervisorctl\<close> and exactly this list, whatever the executor is.
\<close>

theorem invocation_arguments:
  "statusArgs c opts =
     (if configFile c = [] then ''status'' # Names opts
      else ''-c'' # configFile c # ''status'' # Names opts) \<and>
   (Names opts = [] \<and> configFile c = [] \<longrightarrow> statusArgs c opts = [''status'']) \<and>
   controlArgs c action programName =
     (if configFile c = [] then [action, programName]
      else [''-c'', configFile c, action, programName]) \<and>
   (configFile c' = configFile c \<and>
    commandExecutor c' ''supervisorctl'' (statusArgs c opts) =
      commandExecutor c ''supervisorctl'' (statusArgs c opts) \<longrightarrow>
    Status c' opts = Status c opts) \<and>
   Status c opts =
     (case Output (commandExecutor c ''supervisorctl''
             (if configFile c = [] then ''status'' # Names opts
              else ''-c'' # configFile c # ''status'' # Names opts)) of
        (output, None) \<Rightarrow> parseOutput output
      | (output, Some (ExitError code msg)) \<Rightarrow>
          if code = 3 \<or> code = 4 then parseOutput output
          else ([], Some (wrapError
                 (''failed to get status: '' @ msg @ '' - output '' @ output @ '' '')
                 (ExitError code msg)))
      | (output, Some e) \<Rightarrow> ([], Some (wrapError (''failed to get status: '' @ Error e) e))) \<and>
   Start c programName =
     map_option (\<lambda>err. wrapError (''failed to start program: '' @ Error err) err)
       (Run (commandExecutor c ''supervisorctl''
          (if configFile c = [] then [''start'', programName]
           else [''-c'', configFile c, ''start'', programName]))) \<and>
   Stop c programName =
     map_option (\<lambda>err. wrapError (''failed to stop program: '' @ Error err) err)
       (Run (commandExecutor c ''supervisorctl''
          (if configFile c = [] then [''stop'', programName]
           else [''-c'', configFile c, ''stop'', programName]))) \<and>
   Restart c programName =
     map_option (\<lambda>err. wrapError (''failed to restart program: '' @ Error err) err)
       (Run (commandExecutor c ''supervisorctl''
          (if configFile c = [] then [''restart'', programName]
           else [''-c'', configFile c, ''restart'', programName])))"
proof -
  have c1: "statusArgs c opts =
     (if configFile c = [] then ''status'' # Names opts
      else ''-c'' # configFile c # ''status'' # Names opts)"
    by (simp add: statusArgs_eq)
  have c2: "Names opts = [] \<and> configFile c = [] \<longrightarrow> statusArgs c opts = [''status'']"
    by (simp add: statusArgs_eq)
  have c3: "controlArgs c action programName =
     (if configFile c = [] then [action, programName]
      else [''-c'', configFile c, action, programName])" for action
    by (simp add: controlArgs_eq)
  have c4: "configFile c' = configFile c \<and>
    commandExecutor c' ''supervisorctl'' (statusArgs c opts) =
      commandExecutor c ''supervisorctl'' (statusArgs c opts) \<longrightarrow>
    Status c' opts = Status c opts"
    by (simp add: statusArgs_eq Status_def)
  have c5: "Status c opts =
     (case Output (commandExecutor c ''supervisorctl''
             (if configFile c = [] then ''status'' # Names opts
              else ''-c'' # configFile c # ''status'' # Names opts)) of
        (output, None) \<Rightarrow> parseOutput output
      | (output, Some (ExitError code msg)) \<Rightarrow>
          if code = 3 \<or> code = 4 then parseOutput output
          else ([], Some (wrapError
                 (''failed to get status: '' @ msg @ '' - output '' @ output @ '' '')
                 (ExitError code msg)))
      | (output, Some e) \<Rightarrow> ([], Some (wrapError (''failed to get status: '' @ Error e) e)))"
    unfolding c1 [symmetric]
    by (simp add: Status_def split: prod.splits option.splits error.splits)
  have c6: "Start c programName =
     map_option (\<lambda>err. wrapError (''failed to start program: '' @ Error err) err)
       (Run (commandExecutor c ''supervisorctl''
          (if configFile c = [] then [''start'', programName]
           else [''-c'', configFile c, ''start'', programName])))"
    unfolding c3 [symmetric] by (simp add: Start_def split: option.splits)
  have c7: "Stop c programName =
     map_option (\<lambda>err. wrapError (''failed to stop program: '' @ Error err) err)
       (Run (commandExecutor c ''supervisorctl''
          (if configFile c = [] then [''stop'', programName]
           else [''-c'', configFile c, ''stop'', programName])))"
    unfolding c3 [symmetric] by (simp add: Stop_def split: option.splits)
  have c8: "Restart c programName =
     map_option (\<lambda>err. wrapError (''failed to restart program: '' @ Error err) err)
       (Run (commandExecutor c ''supervisorctl''
          (if configFile c = [] then [''restart'', programName]
           else [''-c'', configFile c, ''restart'', programName])))"
    unfolding c3 [symmetric] by (simp add: Restart_def split: option.splits)
  show ?thesis
    by (intro conjI; (rule c1 c2 c3 c4 c5 c6 c7 c8))
qed

theorem invocation_arguments_witness:
  "Status \<lparr>configFile = [], commandExecutor = echoExecutor\<rparr> \<lparr>Names = [''program1'', ''program2'']\<rparr> =
     ([], Some (wrapError
        ''failed to get status: exit status 1 - output supervisorctl status program1 program2 ''
        (ExitError 1 ''exit status 1''))) \<and>
   statusArgs \<lparr>configFile = [], commandExecutor = echoExecutor\<rparr> \<lparr>Names = []\<rparr> = [''status''] \<and>
   Status \<lparr>configFile = [], commandExecutor = echoExecutor\<rparr> \<lparr>Names = []\<rparr> =
     ([], Some (wrapError ''failed to get status: exit status 1 - output supervisorctl status ''
        (ExitError 1 ''exit status 1''))) \<and>
   Status \<lparr>configFile = ''/etc/s.conf'', commandExecutor = echoExecutor\<rparr> \<lparr>Names = [''p'']\<rparr> =
     ([], Some (wrapError
        ''failed to get status: exit status 1 - output supervisorctl -c /etc/s.conf status p ''
        (ExitError 1 ''exit status 1''))) \<and>
   Start \<lparr>configFile = ''/etc/s.conf'', commandExecutor = echoExecutor\<rparr> ''p'' =
     Some (wrapError ''failed to start program: supervisorctl -c /etc/s.conf start p''
        (errorString ''supervisorctl -c /etc/s.conf start p'')) \<and>
   Stop \<lparr>configFile = [], commandExecutor = echoExecutor\<rparr> ''p'' =
     Some (wrapError ''failed to stop program: supervisorctl stop p''
        (errorString ''supervisorctl stop p'')) \<and>
   Restart \<lparr>configFile = ''/etc/s.conf'', commandExecutor = echoExecutor\<rparr> ''p'' =
     Some (wrapError ''failed to restart program: supervisorctl -c /etc/s.conf restart p''
        (errorString ''supervisorctl -c /etc/s.conf restart p'')) \<and>
   Status \<lparr>configFile = [], commandExecutor = MockCommandExecutor (MockCmd [] None)\<rparr> \<lparr>Names = []\<rparr> =
     Status \<lparr>configFile = [], commandExecutor = echoExecutor
        (''supervisorctl'' := (echoExecutor ''supervisorctl'')([''status''] := MockCmd [] None))\<rparr>
       \<lparr>Names = []\<rparr>"
  using
    invocation_arguments [of "\<lparr>configFile = [], commandExecutor = echoExecutor\<rparr>"
      "\<lparr>Names = [''program1'', ''program2'']\<rparr>" "''stop''" "''p''"
      "\<lparr>configFile = [], commandExecutor = echoExecutor\<rparr>"]
    invocation_arguments [of
      "\<lparr>configFile = [], commandExecutor = echoExecutor
        (''supervisorctl'' := (echoExecutor ''supervisorctl'')([''status''] := MockCmd [] None))\<rparr>"
      "\<lparr>Names = []\<rparr>" "''stop''" "''p''"
      "\<lparr>configFile = [], commandExecutor = MockCommandExecutor (MockCmd [] None)\<rparr>"]
    invocation_arguments [of "\<lparr>configFile = [], commandExecutor = echoExecutor\<rparr>"
      "\<lparr>Names = []\<rparr>" "''stop''" "''p''"
      "\<lparr>configFile = [], commandExecutor = echoExecutor\<rparr>"]
    invocation_arguments [of "\<lparr>configFile = ''/etc/s.conf'', commandExecutor = echoExecutor\<rparr>"
      "\<lparr>Names = [''p'']\<rparr>" "''stop''" "''p''"
      "\<lparr>configFile = ''/etc/s.conf'', commandExecutor = echoExecutor\<rparr>"]
  by (simp add: echoExecutor_def MockCommandExecutor_def)

text \<open>
  Claim C8. \<^verbatim>\<open>Start\<close>, \<^verbatim>\<open>Stop\<close> and \<^verbatim>\<open>Restart\<close> run \<^verbatim>\<open>supervisorctl\<close> with the action and
  the program name, after \<^verbatim>\<open>"-c"\<close> and the path when the path is not empty. They return
  no error exactly when \<^verbatim>\<open>Run\<close> returns none, and otherwise an error that wraps the one
  of \<^verbatim>\<open>Run\<close>. The result is a function of what \<^verbatim>\<open>Run\<close> returns: the output of the
  command is not read.
\<close>

theorem control_operations:
  "(let run = (\<lambda>action. Run (commandExecutor c ''supervisorctl''
        ((if configFile c = [] then [] else [''-c'', configFile c]) @ [action, programName])))
    in
      Start c programName =
        map_option (\<lambda>err. wrapError (''failed to start program: '' @ Error err) err) (run ''start'') \<and>
      Stop c programName =
        map_option (\<lambda>err. wrapError (''failed to stop program: '' @ Error err) err) (run ''stop'') \<and>
      Restart c programName =
        map_option (\<lambda>err. wrapError (''failed to restart program: '' @ Error err) err)
          (run ''restart'') \<and>
      (Start c programName = None \<longleftrightarrow> run ''start'' = None) \<and>
      (Stop c programName = None \<longleftrightarrow> run ''stop'' = None) \<and>
      (Restart c programName = None \<longleftrightarrow> run ''restart'' = None) \<and>
      Option.bind (Start c programName) Unwrap = run ''start'' \<and>
      Option.bind (Stop c programName) Unwrap = run ''stop'' \<and>
      Option.bind (Restart c programName) Unwrap = run ''restart'')"
  by (simp add: Start_def Stop_def Restart_def controlArgs_eq Let_def split: option.splits)

theorem control_operations_witness:
  "Start (mockClient [] (MockCmd ''ignored'' None)) ''program1'' = None \<and>
   Start (mockClient [] (MockCmd ''ignored'' (Some (errorString ''command failed'')))) ''program1'' =
     Some (wrapError ''failed to start program: command failed'' (errorString ''command failed'')) \<and>
   Stop (mockClient ''/etc/s.conf'' (MockCmd [] (Some (ExitError 1 ''exit status 1'')))) ''program1'' =
     Some (wrapError ''failed to stop program: exit status 1'' (ExitError 1 ''exit status 1'')) \<and>
   Restart (mockClient [] (MockCmd [] None)) ''program1'' = None"
  using control_operations [of "mockClient [] (MockCmd ''ignored'' None)" "''program1''"]
    control_operations [of "mockClient [] (MockCmd ''ignored'' (Some (errorString ''command failed'')))"
      "''program1''"]
    control_operations [of "mockClient ''/etc/s.conf'' (MockCmd [] (Some (ExitError 1 ''exit status 1'')))"
      "''program1''"]
    control_operations [of "mockClient [] (MockCmd [] None)" "''program1''"]
  by (simp add: mockClient_def MockCmd_def MockCommandExecutor_def Let_def)

text \<open>
  Claim C9. The asynchronous variants launch \<^verbatim>\<open>supervisorctl\<close> with the argument list of
  \<^verbatim>\<open>Start\<close> and \<^verbatim>\<open>Restart\<close>: when the launch succeeds the trace gains the launch and
  nothing else, when it fails the trace gains the failed launch, and in both cases no
  error is returned. They do not wait: they add no wait to the trace and what they
  return does not depend on how the subprocess exits, whereas a command run to
  completion adds the wait and returns the exit status it captured.
\<close>

theorem async_variants:
  "(let args = (if configFile c = [] then [''start'', programName]
                else [''-c'', configFile c, ''start'', programName])
    in
      (launchResult env ''supervisorctl'' args = None \<longrightarrow>
         StartAsync c env programName trace = (trace @ [Launched ''supervisorctl'' args], None) \<and>
         cmdRun env ''supervisorctl'' args trace =
           (trace @ [Launched ''supervisorctl'' args,
                     Waited ''supervisorctl'' args (exitResult env ''supervisorctl'' args)],
            exitResult env ''supervisorctl'' args)) \<and>
      (\<forall>err. launchResult env ''supervisorctl'' args = Some err \<longrightarrow>
         StartAsync c env programName trace =
           (trace @ [LaunchFailed ''supervisorctl'' args err], None)) \<and>
      Start c programName =
        map_option (\<lambda>err. wrapError (''failed to start program: '' @ Error err) err)
          (Run (commandExecutor c ''supervisorctl'' args))) \<and>
   (let args = (if configFile c = [] then [''restart'', programName]
                else [''-c'', configFile c, ''restart'', programName])
    in
      (launchResult env ''supervisorctl'' args = None \<longrightarrow>
         RestartAsync c env programName trace = (trace @ [Launched ''supervisorctl'' args], None) \<and>
         cmdRun env ''supervisorctl'' args trace =
           (trace @ [Launched ''supervisorctl'' args,
                     Waited ''supervisorctl'' args (exitResult env ''supervisorctl'' args)],
            exitResult env ''supervisorctl'' args)) \<and>
      (\<forall>err. launchResult env ''supervisorctl'' args = Some err \<longrightarrow>
         RestartAsync c env programName trace =
           (trace @ [LaunchFailed ''supervisorctl'' args err], None)) \<and>
      Restart c programName =
        map_option (\<lambda>err. wrapError (''failed to restart program: '' @ Error err) err)
          (Run (commandExecutor c ''supervisorctl'' args))) \<and>
   snd (StartAsync c env programName trace) = None \<and>
   snd (RestartAsync c env programName trace) = None \<and>
   StartAsync c (env\<lparr>exitResult := x\<rparr>) programName trace = StartAsync c env programName trace \<and>
   RestartAsync c (env\<lparr>exitResult := x\<rparr>) programName trace =
     RestartAsync c env programName trace \<and>
   (\<forall>name arg st. Waited name arg st \<in> set (fst (StartAsync c env programName trace)) \<longrightarrow>
      Waited name arg st \<in> set trace) \<and>
   (\<forall>name arg st. Waited name arg st \<in> set (fst (RestartAsync c env programName trace)) \<longrightarrow>
      Waited name arg st \<in> set trace)"
proof -
  have a: "asyncControl c env action programName trace =
      (case launchResult env ''supervisorctl'' (controlArgs c action programName) of
         None \<Rightarrow> (trace @ [Launched ''supervisorctl'' (controlArgs c action programName)], None)
       | Some err \<Rightarrow>
           (trace @ [LaunchFailed ''supervisorctl'' (controlArgs c action programName) err], None))"
    for env action
    by (simp add: asyncControl_def cmdStart_def Let_def split: option.splits)
  have r: "launchResult env name arg = None \<Longrightarrow>
      cmdRun env name arg trace =
        (trace @ [Launched name arg, Waited name arg (exitResult env name arg)],
         exitResult env name arg)" for name arg
    by (simp add: cmdRun_def cmdStart_def cmdWait_def)
  have s: "Start c programName =
     map_option (\<lambda>err. wrapError (''failed to start program: '' @ Error err) err)
       (Run (commandExecutor c ''supervisorctl'' (controlArgs c ''start'' programName)))"
    by (simp add: Start_def split: option.splits)
  have t: "Restart c programName =
     map_option (\<lambda>err. wrapError (''failed to restart program: '' @ Error err) err)
       (Run (commandExecutor c ''supervisorctl'' (controlArgs c ''restart'' programName)))"
    by (simp add: Restart_def split: option.splits)
  show ?thesis
    unfolding StartAsync_def RestartAsync_def a s t
    by (auto simp: controlArgs_eq r Let_def split: option.splits)
qed

theorem async_variants_witness:
  "StartAsync (mockClient [] (MockCmd [] None))
      (procEnvOf None (Some (ExitError 1 ''exit status 1''))) ''program1'' [] =
     ([Launched ''supervisorctl'' [''start'', ''program1'']], None) \<and>
   cmdRun (procEnvOf None (Some (ExitError 1 ''exit status 1''))) ''supervisorctl''
      [''start'', ''program1''] [] =
     ([Launched ''supervisorctl'' [''start'', ''program1''],
       Waited ''supervisorctl'' [''start'', ''program1''] (Some (ExitError 1 ''exit status 1''))],
      Some (ExitError 1 ''exit status 1'')) \<and>
   RestartAsync (mockClient ''/etc/s.conf'' (MockCmd [] None))
      (procEnvOf (Some (errorString ''executable file not found'')) None) ''program1'' [] =
     ([LaunchFailed ''supervisorctl'' [''-c'', ''/etc/s.conf'', ''restart'', ''program1'']
         (errorString ''executable file not found'')], None) \<and>
   StartAsync (mockClient ''/etc/s.conf'' (MockCmd [] None))
      (procEnvOf (Some (errorString ''executable file not found'')) None) ''program1'' [] =
     ([LaunchFailed ''supervisorctl'' [''-c'', ''/etc/s.conf'', ''start'', ''program1'']
         (errorString ''executable file not found'')], None) \<and>
   RestartAsync (mockClient [] (MockCmd [] None))
      (procEnvOf None (Some (ExitError 1 ''exit status 1''))) ''program1'' [] =
     ([Launched ''supervisorctl'' [''restart'', ''program1'']], None)"
  using
    async_variants [where c = "mockClient [] (MockCmd [] None)" and programName = "''program1''"
      and env = "procEnvOf None (Some (ExitError 1 ''exit status 1''))" and trace = "[]"]
    async_variants [where c = "mockClient ''/etc/s.conf'' (MockCmd [] None)"
      and programName = "''program1''"
      and env = "procEnvOf (Some (errorString ''executable file not found'')) None"
      and trace = "[]"]
  by (simp add: mockClient_def procEnvOf_def Let_def)

text \<open>
  Claim C5, as the code has it. With no error, or with an exit error of code 3 or 4,
  \<^verbatim>\<open>Status\<close> parses the captured output. Any other exit error gives an error that wraps it
  and whose message contains the captured output. An error that is not an exit error,
  such as a failure to launch, gives an error that wraps it and whose message is
  \<^verbatim>\<open>"failed to get status: "\<close> followed by the message of the cause: the captured output
  is not part of it.
\<close>

theorem Status_error_handling:
  assumes "Output (commandExecutor c ''supervisorctl'' (statusArgs c opts)) = (output, err)"
  shows
    "(err = None \<or> (\<exists>msg. err = Some (ExitError 3 msg) \<or> err = Some (ExitError 4 msg)) \<longrightarrow>
        Status c opts = parseOutput output) \<and>
     (\<forall>code msg. err = Some (ExitError code msg) \<and> code \<noteq> 3 \<and> code \<noteq> 4 \<longrightarrow>
        (\<exists>m. Status c opts = ([], Some (wrapError m (ExitError code msg))) \<and>
             m = ''failed to get status: '' @ msg @ '' - output '' @ output @ '' '' \<and>
             Contains m output)) \<and>
     (\<forall>e. err = Some e \<and> (\<forall>code msg. e \<noteq> ExitError code msg) \<longrightarrow>
        Status c opts = ([], Some (wrapError (''failed to get status: '' @ Error e) e)))"
proof (intro conjI allI impI)
  assume "err = None \<or> (\<exists>msg. err = Some (ExitError 3 msg) \<or> err = Some (ExitError 4 msg))"
  with assms show "Status c opts = parseOutput output"
    by (auto simp: Status_no_error Status_exit_tolerated)
next
  fix code msg
  assume "err = Some (ExitError code msg) \<and> code \<noteq> 3 \<and> code \<noteq> 4"
  with assms have "Status c opts =
     ([], Some (wrapError (''failed to get status: '' @ msg @ '' - output '' @ output @ '' '')
                 (ExitError code msg)))"
    by (simp add: Status_exit_error)
  moreover have "Contains ((''failed to get status: '' @ msg @ '' - output '') @ output @ '' '') output"
    by (rule Contains_infix)
  ultimately show "\<exists>m. Status c opts = ([], Some (wrapError m (ExitError code msg))) \<and>
             m = ''failed to get status: '' @ msg @ '' - output '' @ output @ '' '' \<and>
             Contains m output"
    by simp
next
  fix e
  assume "err = Some e \<and> (\<forall>code msg. e \<noteq> ExitError code msg)"
  with assms show "Status c opts = ([], Some (wrapError (''failed to get status: '' @ Error e) e))"
    by (simp add: Status_other_error)
qed

lemma parseOutput_program2:
  "parseOutput ''program2 STOPPED not started'' =
     ([\<lparr>Name = ''program2'', Description = ''not started'', State = 0,
        StateName = ''STOPPED'', PID = 0, Uptime = []\<rparr>], None)"
  by code_simp

theorem Status_error_handling_witness:
  "Status (mockClient [] (MockCmd ''program2 STOPPED not started'' (Some (ExitError 3 ''exit status 3''))))
      \<lparr>Names = []\<rparr> =
     ([\<lparr>Name = ''program2'', Description = ''not started'', State = 0,
        StateName = ''STOPPED'', PID = 0, Uptime = []\<rparr>], None) \<and>
   Status (mockClient [] (MockCmd ''boom'' (Some (ExitError 1 ''exit status 1'')))) \<lparr>Names = []\<rparr> =
     ([], Some (wrapError ''failed to get status: exit status 1 - output boom ''
                 (ExitError 1 ''exit status 1''))) \<and>
   Status (mockClient [] (MockCmd [] (Some (errorString ''command failed'')))) \<lparr>Names = []\<rparr> =
     ([], Some (wrapError ''failed to get status: command failed'' (errorString ''command failed'')))"
  using
    Status_error_handling [of "mockClient [] (MockCmd ''program2 STOPPED not started''
        (Some (ExitError 3 ''exit status 3'')))" "\<lparr>Names = []\<rparr>"
      "''program2 STOPPED not started''" "Some (ExitError 3 ''exit status 3'')"]
    Status_error_handling [of "mockClient [] (MockCmd ''boom'' (Some (ExitError 1 ''exit status 1'')))"
      "\<lparr>Names = []\<rparr>" "''boom''" "Some (ExitError 1 ''exit status 1'')"]
    Status_error_handling [of "mockClient [] (MockCmd [] (Some (errorString ''command failed'')))"
      "\<lparr>Names = []\<rparr>" "[]" "Some (errorString ''command failed'')"]
  by (simp add: mockClient_def MockCmd_def MockCommandExecutor_def parseOutput_program2)

text \<open>
  Claim C5 as the spec states it fails for an error that is not an exit error: the
  executor of the tests returns the output \<^verbatim>\<open>"partial"\<close> with the error
  \<^verbatim>\<open>"command failed"\<close>, and the message of the error of \<^verbatim>\<open>Status\<close> does not contain the
  output.
\<close>

theorem Status_output_in_error_counterexample:
  "Status (mockClient [] (MockCmd ''partial'' (Some (errorString ''command failed''))))
      \<lparr>Names = []\<rparr> =
     ([], Some (wrapError ''failed to get status: command failed''
                 (errorString ''command failed''))) \<and>
   \<not> Contains ''failed to get status: command failed'' ''partial''"
proof -
  have "\<not> Contains ''failed to get status: command failed'' ''partial''"
    by code_simp
  then show ?thesis
    by (simp add: Status_def mockClient_def MockCmd_def MockCommandExecutor_def)
qed

section \<open>Properties of the output parsing of \<^verbatim>\<open>Status\<close>\<close>

subsection \<open>The loop of \<^verbatim>\<open>Status\<close>\<close>

lemma parseStatusLine_dropCR:
  "parseStatusLine l = Inr p \<Longrightarrow> parseStatusLine (dropCR l) = Inr p"
  by (cases "length (Fields l) < 3") (simp_all add: parseStatusLine_def Fields_dropCR)

lemma parseStatusLine_Nil: "parseStatusLine [] = Inl (errorString ''invalid status line: '')"
  by (simp add: parseStatusLine_def Fields_def)

lemma statusLoop_all:
  "list_all2 (\<lambda>l p. parseStatusLine l = Inr p) ls ps \<Longrightarrow>
   statusLoop programs ls = (programs @ ps, None)"
proof (induction ls ps arbitrary: programs rule: list_all2_induct)
  case Nil
  show ?case by simp
next
  case (Cons l p ls ps)
  then show ?case by simp
qed

lemma statusLoop_error_nil:
  "snd (statusLoop programs ls) \<noteq> None \<Longrightarrow> fst (statusLoop programs ls) = []"
proof (induction ls arbitrary: programs)
  case Nil
  then show ?case by simp
next
  case (Cons l ls)
  then show ?case
    by (cases "parseStatusLine l") (auto split: error.splits)
qed

lemma statusLoop_error:
  "\<exists>l \<in> set ls. \<exists>e. parseStatusLine l = Inl e \<Longrightarrow> snd (statusLoop programs ls) \<noteq> None"
proof (induction ls arbitrary: programs)
  case Nil
  then show ?case by simp
next
  case (Cons l ls)
  then show ?case
    by (cases "parseStatusLine l") (auto split: error.splits)
qed

lemma scanLines_Join:
  assumes "\<forall>l \<in> set ls. CHR 0x0A \<notin> set l \<and> length l < MaxScanTokenSize \<and> l \<noteq> []"
  shows "scanLines (Join ls [CHR 0x0A]) = map dropCR ls"
  using assms
proof (induction ls "[CHR 0x0A]" rule: Join.induct)
  case 1
  show ?case by simp
next
  case (2 x)
  then show ?case by (simp add: scanLines_last)
next
  case (3 x y ys)
  then show ?case by (simp add: scanLines_line)
qed

text \<open>An output whose lines are shorter than the scanner's limit and are all parsed
  gives their records, in their order.\<close>

lemma parseOutput_lines:
  assumes "list_all2 (\<lambda>l p. CHR 0x0A \<notin> set l \<and> length l < MaxScanTokenSize \<and>
      parseStatusLine l = Inr p) ls ps"
  shows "parseOutput (Join ls [CHR 0x0A]) = (ps, None)"
proof -
  from assms have "\<forall>l \<in> set ls. CHR 0x0A \<notin> set l \<and> length l < MaxScanTokenSize \<and> l \<noteq> []"
    by (induction rule: list_all2_induct) (auto simp: parseStatusLine_Nil)
  then have "scanLines (Join ls [CHR 0x0A]) = map dropCR ls"
    by (rule scanLines_Join)
  moreover from assms have "list_all2 (\<lambda>l p. parseStatusLine l = Inr p) (map dropCR ls) ps"
    by (induction rule: list_all2_induct) (auto simp: parseStatusLine_dropCR)
  ultimately show ?thesis
    using statusLoop_all [of "map dropCR ls" ps "[]"] by (simp add: parseOutput_def)
qed

subsection \<open>A line longer than the scanner's buffer\<close>

lemma Fields_xs: "0 < n \<Longrightarrow> Fields (replicate n (CHR ''x'')) = [replicate n (CHR ''x'')]"
  by (intro Fields_plain) auto

lemma parseStatusLine_xs:
  assumes "0 < n"
  shows "parseStatusLine (replicate n (CHR ''x'')) =
     Inl (errorString (''invalid status line: '' @ replicate n (CHR ''x'')))"
  using Fields_xs [OF assms] by (simp add: parseStatusLine_short)

lemma parseStatusLine_stopped_xs:
  assumes "0 < n"
  shows "parseStatusLine (''p1 STOPPED '' @ replicate n (CHR ''x'')) =
     Inr \<lparr>Name = ''p1'', Description = replicate n (CHR ''x''), State = 0,
          StateName = ''STOPPED'', PID = 0, Uptime = []\<rparr>"
proof -
  let ?r = "replicate n (CHR ''x'')"
  have "Fields ''p1'' = [''p1'']" and s: "Fields ''STOPPED'' = [''STOPPED'']"
    by (simp_all add: Fields_plain)
  then have "Fields (''p1 STOPPED '' @ ?r) = ''p1'' # Fields (''STOPPED '' @ ?r)"
    using Fields_token_space [of "''p1''" "''STOPPED '' @ ?r"] by simp
  also have "Fields (''STOPPED '' @ ?r) = ''STOPPED'' # Fields ?r"
    using Fields_token_space [OF s, of ?r] by simp
  finally have f: "Fields (''p1 STOPPED '' @ ?r) = ''p1'' # ''STOPPED'' # [?r]"
    by (simp add: Fields_xs [OF assms])
  have "parseStatusLine (''p1 STOPPED '' @ ?r) =
     Inr \<lparr>Name = ''p1'', Description = Join [?r] '' '', State = 0,
          StateName = ''STOPPED'', PID = 0, Uptime = []\<rparr>"
  proof (rule parseStatusLine_fields [OF f])
    show "[?r] \<noteq> []" by simp
    show "\<not> Contains (Join [?r] '' '') ''no such process''"
      by (simp add: Contains_absent)
    show "stateMap ''STOPPED'' = Some 0"
      by (simp add: stateMap_def)
    have "\<not> Contains ?r ''pid''"
      by (simp add: Contains_absent)
    then show "pidUptime (Join [?r] '' '') = Inr (0, [])"
      by (simp add: pidUptime_def)
  qed
  then show ?thesis by simp
qed

text \<open>
  Claim C7 on a line of 70011 bytes. The line is parsed into a record by
  \<^verbatim>\<open>parseStatusLine\<close>, and it is the whole output of the command, which ends without
  error. The scanner gives up on it, its error is never read, and \<^verbatim>\<open>Status\<close> returns no
  record and no error.
\<close>

theorem Status_long_line_dropped:
  "parseStatusLine (''p1 STOPPED '' @ replicate 70000 (CHR ''x'')) =
     Inr \<lparr>Name = ''p1'', Description = replicate 70000 (CHR ''x''), State = 0,
          StateName = ''STOPPED'', PID = 0, Uptime = []\<rparr> \<and>
   Status (mockClient [] (MockCmd (''p1 STOPPED '' @ replicate 70000 (CHR ''x'')) None))
      \<lparr>Names = []\<rparr> = ([], None)"
proof -
  have "scanLines ((''p1 STOPPED '' @ replicate 70000 (CHR ''x'')) @ []) = []"
    by (rule scanLines_too_long) (simp_all add: MaxScanTokenSize_def)
  then have "parseOutput (''p1 STOPPED '' @ replicate 70000 (CHR ''x'')) = ([], None)"
    by (simp add: parseOutput_def)
  then have s: "Status (mockClient [] (MockCmd (''p1 STOPPED '' @ replicate 70000 (CHR ''x'')) None))
      \<lparr>Names = []\<rparr> = ([], None)"
    by (simp add: Status_def mockClient_def MockCmd_def MockCommandExecutor_def)
  have p: "parseStatusLine (''p1 STOPPED '' @ replicate 70000 (CHR ''x'')) =
     Inr \<lparr>Name = ''p1'', Description = replicate 70000 (CHR ''x''), State = 0,
          StateName = ''STOPPED'', PID = 0, Uptime = []\<rparr>"
    by (rule parseStatusLine_stopped_xs) simp
  from p s show ?thesis
    by (rule conjI)
qed

lemma parseStatusLine_p1:
  "parseStatusLine ''p1 STOPPED not started'' =
     Inr \<lparr>Name = ''p1'', Description = ''not started'', State = 0,
          StateName = ''STOPPED'', PID = 0, Uptime = []\<rparr>"
  by code_simp

text \<open>
  Claim C10 on an output of two lines, the second one of 70000 bytes without white space.
  \<^verbatim>\<open>parseStatusLine\<close> fails on the second line. The scanner gives up before it, and
  \<^verbatim>\<open>Status\<close> returns the record of the first line and no error.
\<close>

theorem Status_unparsed_line_no_error:
  "parseStatusLine (replicate 70000 (CHR ''x'')) =
     Inl (errorString (''invalid status line: '' @ replicate 70000 (CHR ''x''))) \<and>
   Status (mockClient []
       (MockCmd (''p1 STOPPED not started'' @ [CHR 0x0A] @ replicate 70000 (CHR ''x'')) None))
      \<lparr>Names = []\<rparr> =
     ([\<lparr>Name = ''p1'', Description = ''not started'', State = 0,
        StateName = ''STOPPED'', PID = 0, Uptime = []\<rparr>], None)"
proof -
  have "scanLines (replicate 70000 (CHR ''x'') @ []) = []"
    by (rule scanLines_too_long) (simp_all add: MaxScanTokenSize_def)
  moreover have "scanLines (''p1 STOPPED not started'' @ CHR 0x0A # replicate 70000 (CHR ''x'')) =
      dropCR ''p1 STOPPED not started'' # scanLines (replicate 70000 (CHR ''x''))"
    by (rule scanLines_line) (simp_all add: MaxScanTokenSize_def)
  ultimately have "scanLines (''p1 STOPPED not started'' @ [CHR 0x0A] @ replicate 70000 (CHR ''x'')) =
      [''p1 STOPPED not started'']"
    by (simp add: dropCR_def)
  then have "parseOutput (''p1 STOPPED not started'' @ [CHR 0x0A] @ replicate 70000 (CHR ''x'')) =
     ([\<lparr>Name = ''p1'', Description = ''not started'', State = 0,
        StateName = ''STOPPED'', PID = 0, Uptime = []\<rparr>], None)"
    by (simp add: parseOutput_def parseStatusLine_p1)
  then have s: "Status (mockClient []
       (MockCmd (''p1 STOPPED not started'' @ [CHR 0x0A] @ replicate 70000 (CHR ''x'')) None))
      \<lparr>Names = []\<rparr> =
     ([\<lparr>Name = ''p1'', Description = ''not started'', State = 0,
        StateName = ''STOPPED'', PID = 0, Uptime = []\<rparr>], None)"
    by (simp add: Status_def mockClient_def MockCmd_def MockCommandExecutor_def)
  have p: "parseStatusLine (replicate 70000 (CHR ''x'')) =
     Inl (errorString (''invalid status line: '' @ replicate 70000 (CHR ''x'')))"
    by (rule parseStatusLine_xs) simp
  from p s show ?thesis
    by (rule conjI)
qed

text \<open>The scenario of the tests: three lines, three records in the order of the lines.\<close>

lemma parseOutput_scenario:
  "parseOutput (''program1 RUNNING pid 123, uptime 1:23:45'' @ [CHR 0x0A] @
       ''program2 STOPPED not started'' @ [CHR 0x0A] @ ''program3 STARTING start in progress'') =
     ([\<lparr>Name = ''program1'', Description = ''pid 123, uptime 1:23:45'', State = 20,
         StateName = ''RUNNING'', PID = 123, Uptime = ''1:23:45''\<rparr>,
       \<lparr>Name = ''program2'', Description = ''not started'', State = 0,
         StateName = ''STOPPED'', PID = 0, Uptime = []\<rparr>,
       \<lparr>Name = ''program3'', Description = ''start in progress'', State = 10,
         StateName = ''STARTING'', PID = 0, Uptime = []\<rparr>], None)"
  by code_simp

end
